theory Spec2Isabelle
  imports Complex_Main
begin

section \<open>The keyboard-driven GoPiGo3 robot\<close>

text \<open>
  A model of \<^verbatim>\<open>my_keyboarded_robot.py\<close>: the class \<^verbatim>\<open>GoPiGo3WithKeyboard\<close>, its key
  bindings, the dispatch method \<^verbatim>\<open>executeKeyboardJob\<close>, the menu printer and the eighteen
  \<^verbatim>\<open>_gopigo3_command_*\<close> handlers.

  The robot hardware (\<^verbatim>\<open>easygopigo3.EasyGoPiGo3\<close>) and \<^verbatim>\<open>time.sleep\<close> are outside the
  file. What the class asks of them is recorded, in order, in a trace; whether a hardware
  call raises is decided by an oracle that sees the trace so far.
\<close>

subsection \<open>Errors, hardware commands, trace\<close>

datatype error = KeyError | ValueError | ActuatorError

text \<open>
  One constructor for each method of \<^verbatim>\<open>self.gopigo3\<close> that the class calls, named after the
  method, with the arguments of the call.
\<close>

datatype cmd =
    Forward
  | Backward
  | Left
  | Right
  | Stop
  | Drive_cm int
  | Drive_inches int
  | Drive_degrees int
  | Turn_degrees int
  | Steer rat rat
  | Set_speed rat
  | Led_on nat
  | Led_off nat
  | Blinker_on nat
  | Blinker_off nat
  | Open_left_eye
  | Close_left_eye
  | Open_right_eye
  | Close_right_eye
  | Open_eyes
  | Close_eyes
  | Set_eye_color "int \<times> int \<times> int"
  | Set_left_eye_color "int \<times> int \<times> int"
  | Set_right_eye_color "int \<times> int \<times> int"
  | Init_servo

text \<open>A statement of a handler body that touches the outside: a hardware call or a sleep.\<close>

datatype step = Call cmd | Sleep rat

subsection \<open>The object\<close>

text \<open>
  The fields of a \<^verbatim>\<open>GoPiGo3WithKeyboard\<close> instance. A binding is the two-element list
  \<^verbatim>\<open>[description, suffix]\<close>, read at \<^verbatim>\<open>KEY_DESCRIPTION = 0\<close> and \<^verbatim>\<open>KEY_FUNC_SUFFIX = 1\<close>.
  \<open>trace\<close> stands for \<^verbatim>\<open>self.gopigo3\<close> and the clock: every hardware call attempted and
  every sleep done, oldest first. \<open>stdout\<close> is what \<^verbatim>\<open>print\<close> has written, one entry a line.
\<close>

record robot =
  keybindings :: "string \<rightharpoonup> string \<times> string"
  order_of_keys :: "string list"
  left_blinker_on :: bool
  right_blinker_on :: bool
  left_eye_on :: bool
  right_eye_on :: bool
  trace :: "step list"
  stdout :: "string list"

definition KEY_DESCRIPTION :: "string \<times> string \<Rightarrow> string" where
  "KEY_DESCRIPTION b = fst b"

definition KEY_FUNC_SUFFIX :: "string \<times> string \<Rightarrow> string" where
  "KEY_FUNC_SUFFIX b = snd b"

definition keybindings_literal :: "(string \<times> string \<times> string) list" where
  "keybindings_literal =
   [(''w'', ''Move the GoPiGo3 forward'', ''forward''),
    (''s'', ''Move the GoPiGo3 backward'', ''backward''),
    (''a'', ''Turn the GoPiGo3 to the left'', ''left''),
    (''d'', ''Turn the GoPiGo3 to the right'', ''right''),
    (''<SPACE>'', ''Stop the GoPiGo3 from moving'', ''stop''),
    (''<F1>'', ''Drive forward for 10 centimeters'', ''forward10cm''),
    (''<F2>'', ''Drive forward for 10 inches'', ''forward10in''),
    (''<F3>'', ''Drive forward for 360 degrees (aka 1 wheel rotation)'', ''forwardturn''),
    (''1'', ''Turn ON/OFF left blinker of the GoPiGo3'', ''leftblinker''),
    (''2'', ''Turn ON/OFF right blinker of the GoPiGo3'', ''rightblinker''),
    (''3'', ''Turn ON/OFF both blinkers of the GoPiGo3'', ''blinkers''),
    (''5'', ''Do a little boogie woogie'', ''activatedance''),
    (''7'', ''Deliver altoids from kitchen to computer'', ''deliveraltoids''),
    (''8'', ''Turn ON/OFF left eye of the GoPiGo3'', ''lefteye''),
    (''9'', ''Turn ON/OFF right eye of the GoPiGo3'', ''righteye''),
    (''0'', ''Turn ON/OFF both eyes of the GoPiGo3'', ''eyes''),
    (''e'', ''Change the eyes'' @ [CHR 0x27] @ '' color on the go'', ''eyescolor''),
    (''<ESC>'', ''Exit'', ''exit'')]"

text \<open>
  \<^verbatim>\<open>__init__\<close>. The four flags are the class attributes, all \<^verbatim>\<open>False\<close>. No key occurs twice
  in the dict literal, so the first-match lookup of \<open>map_of\<close> is the dict's lookup.
\<close>

definition init :: robot where
  "init =
   \<lparr>keybindings = map_of keybindings_literal,
    order_of_keys =
      [''w'', ''s'', ''a'', ''d'', ''<SPACE>'', ''<F1>'', ''<F2>'', ''<F3>'',
       ''1'', ''2'', ''3'', ''5'', ''7'', ''8'', ''9'', ''0'', ''e'', ''<ESC>''],
    left_blinker_on = False,
    right_blinker_on = False,
    left_eye_on = False,
    right_eye_on = False,
    trace = [],
    stdout = []\<rparr>"

subsection \<open>Calling out, and Python's sequencing\<close>

text \<open>
  A computation returns a value or raises; either way the object it leaves behind is part
  of the result, since a raise does not undo what was done before it.
\<close>

type_synonym 'a result = "(error + 'a) \<times> robot"

text \<open>
  The hardware's say on failure: \<open>hw h c\<close> holds when the call \<open>c\<close>, made after the history
  \<open>h\<close>, raises.
\<close>

type_synonym actuator = "step list \<Rightarrow> cmd \<Rightarrow> bool"

definition reliable :: "actuator \<Rightarrow> bool" where
  "reliable hw \<longleftrightarrow> (\<forall>h c. \<not> hw h c)"

text \<open>A hardware call: it is attempted (so traced) whether or not it raises.\<close>

definition call :: "actuator \<Rightarrow> cmd \<Rightarrow> robot \<Rightarrow> unit result" where
  "call hw c s =
     (if hw (trace s) c then (Inl ActuatorError, s\<lparr>trace := trace s @ [Call c]\<rparr>)
      else (Inr (), s\<lparr>trace := trace s @ [Call c]\<rparr>))"

text \<open>\<^verbatim>\<open>time.sleep(d)\<close> raises \<^verbatim>\<open>ValueError\<close> on a negative length.\<close>

definition sleep :: "rat \<Rightarrow> robot \<Rightarrow> unit result" where
  "sleep d s =
     (if d < 0 then (Inl ValueError, s) else (Inr (), s\<lparr>trace := trace s @ [Sleep d]\<rparr>))"

text \<open>One statement after another: a raise skips everything that follows it.\<close>

definition and_then :: "'a result \<Rightarrow> ('a \<Rightarrow> robot \<Rightarrow> 'b result) \<Rightarrow> 'b result" where
  "and_then m f = (case m of (Inl e, s') \<Rightarrow> (Inl e, s') | (Inr x, s') \<Rightarrow> f x s')"

fun do_step :: "actuator \<Rightarrow> step \<Rightarrow> robot \<Rightarrow> unit result" where
  "do_step hw (Call c) s = call hw c s"
| "do_step hw (Sleep d) s = sleep d s"

text \<open>
  A handler body that is a straight line of hardware calls and sleeps is written as the
  list of its statements; \<open>exec\<close> runs the list the way Python runs the body.
\<close>

fun exec :: "actuator \<Rightarrow> step list \<Rightarrow> robot \<Rightarrow> unit result" where
  "exec hw [] s = (Inr (), s)"
| "exec hw (x # xs) s = and_then (do_step hw x s) (\<lambda>_. exec hw xs)"

subsection \<open>Handlers: continuous motion and bounded paths\<close>

definition gopigo3_command_forward :: "actuator \<Rightarrow> robot \<Rightarrow> string result" where
  "gopigo3_command_forward hw s =
     and_then (call hw Forward s) (\<lambda>_ s1. (Inr ''moving'', s1))"

definition gopigo3_command_backward :: "actuator \<Rightarrow> robot \<Rightarrow> string result" where
  "gopigo3_command_backward hw s =
     and_then (call hw Backward s) (\<lambda>_ s1. (Inr ''moving'', s1))"

definition gopigo3_command_left :: "actuator \<Rightarrow> robot \<Rightarrow> string result" where
  "gopigo3_command_left hw s =
     and_then (call hw Left s) (\<lambda>_ s1. (Inr ''moving'', s1))"

definition gopigo3_command_right :: "actuator \<Rightarrow> robot \<Rightarrow> string result" where
  "gopigo3_command_right hw s =
     and_then (call hw Right s) (\<lambda>_ s1. (Inr ''moving'', s1))"

definition gopigo3_command_stop :: "actuator \<Rightarrow> robot \<Rightarrow> string result" where
  "gopigo3_command_stop hw s =
     and_then (call hw Stop s) (\<lambda>_ s1. (Inr ''moving'', s1))"

definition gopigo3_command_forward10cm :: "actuator \<Rightarrow> robot \<Rightarrow> string result" where
  "gopigo3_command_forward10cm hw s =
     and_then (call hw (Drive_cm 10) s) (\<lambda>_ s1. (Inr ''path'', s1))"

definition gopigo3_command_forward10in :: "actuator \<Rightarrow> robot \<Rightarrow> string result" where
  "gopigo3_command_forward10in hw s =
     and_then (call hw (Drive_inches 10) s) (\<lambda>_ s1. (Inr ''path'', s1))"

definition gopigo3_command_forwardturn :: "actuator \<Rightarrow> robot \<Rightarrow> string result" where
  "gopigo3_command_forwardturn hw s =
     and_then (call hw (Drive_degrees 360) s) (\<lambda>_ s1. (Inr ''path'', s1))"

subsection \<open>Handlers: blinkers and eyes\<close>

text \<open>
  The flag is assigned after the hardware call, so a call that raises leaves it as it was.
\<close>

definition gopigo3_command_leftblinker :: "actuator \<Rightarrow> robot \<Rightarrow> string result" where
  "gopigo3_command_leftblinker hw s =
     (if left_blinker_on s = False then
        and_then (call hw (Led_on 1) s)
          (\<lambda>_ s1. (Inr ''static'', s1\<lparr>left_blinker_on := True\<rparr>))
      else
        and_then (call hw (Led_off 1) s)
          (\<lambda>_ s1. (Inr ''static'', s1\<lparr>left_blinker_on := False\<rparr>)))"

definition gopigo3_command_rightblinker :: "actuator \<Rightarrow> robot \<Rightarrow> string result" where
  "gopigo3_command_rightblinker hw s =
     (if right_blinker_on s = False then
        and_then (call hw (Led_on 0) s)
          (\<lambda>_ s1. (Inr ''static'', s1\<lparr>right_blinker_on := True\<rparr>))
      else
        and_then (call hw (Led_off 0) s)
          (\<lambda>_ s1. (Inr ''static'', s1\<lparr>right_blinker_on := False\<rparr>)))"

definition gopigo3_command_blinkers :: "actuator \<Rightarrow> robot \<Rightarrow> string result" where
  "gopigo3_command_blinkers hw s =
     (if left_blinker_on s = False \<and> right_blinker_on s = False then
        and_then (call hw (Led_on 0) s) (\<lambda>_ s1.
        and_then (call hw (Led_on 1) s1) (\<lambda>_ s2.
          (Inr ''static'', s2\<lparr>left_blinker_on := True, right_blinker_on := True\<rparr>)))
      else
        and_then (call hw (Led_off 0) s) (\<lambda>_ s1.
        and_then (call hw (Led_off 1) s1) (\<lambda>_ s2.
          (Inr ''static'', s2\<lparr>left_blinker_on := False, right_blinker_on := False\<rparr>))))"

definition gopigo3_command_lefteye :: "actuator \<Rightarrow> robot \<Rightarrow> string result" where
  "gopigo3_command_lefteye hw s =
     (if left_eye_on s = False then
        and_then (call hw Open_left_eye s)
          (\<lambda>_ s1. (Inr ''static'', s1\<lparr>left_eye_on := True\<rparr>))
      else
        and_then (call hw Close_left_eye s)
          (\<lambda>_ s1. (Inr ''static'', s1\<lparr>left_eye_on := False\<rparr>)))"

definition gopigo3_command_righteye :: "actuator \<Rightarrow> robot \<Rightarrow> string result" where
  "gopigo3_command_righteye hw s =
     (if right_eye_on s = False then
        and_then (call hw Open_right_eye s)
          (\<lambda>_ s1. (Inr ''static'', s1\<lparr>right_eye_on := True\<rparr>))
      else
        and_then (call hw Close_right_eye s)
          (\<lambda>_ s1. (Inr ''static'', s1\<lparr>right_eye_on := False\<rparr>)))"

definition gopigo3_command_eyes :: "actuator \<Rightarrow> robot \<Rightarrow> string result" where
  "gopigo3_command_eyes hw s =
     (if left_eye_on s = False \<and> right_eye_on s = False then
        and_then (call hw Open_eyes s)
          (\<lambda>_ s1. (Inr ''static'', s1\<lparr>left_eye_on := True, right_eye_on := True\<rparr>))
      else
        and_then (call hw Close_eyes s)
          (\<lambda>_ s1. (Inr ''static'', s1\<lparr>left_eye_on := False, right_eye_on := False\<rparr>)))"

text \<open>
  \<^verbatim>\<open>random.randint(lo, hi)\<close> is library code; of it only the range is modelled. The raw
  randomness \<open>w\<close> comes from outside, and every value of the range is reached by some \<open>w\<close>.
\<close>

definition randint :: "int \<Rightarrow> int \<Rightarrow> nat \<Rightarrow> int" where
  "randint lo hi w = lo + int (w mod nat (hi - lo + 1))"

definition gopigo3_command_eyescolor ::
  "actuator \<Rightarrow> nat \<times> nat \<times> nat \<Rightarrow> robot \<Rightarrow> string result" where
  "gopigo3_command_eyescolor hw rnd s =
     (case rnd of (w1, w2, w3) \<Rightarrow>
        let red = randint 0 255 w1;
            green = randint 0 255 w2;
            blue = randint 0 255 w3
        in
          and_then (call hw (Set_eye_color (red, green, blue)) s) (\<lambda>_ s1.
          and_then (if left_eye_on s1 = True then call hw Open_left_eye s1 else (Inr (), s1)) (\<lambda>_ s2.
          and_then (if right_eye_on s2 = True then call hw Open_right_eye s2 else (Inr (), s2)) (\<lambda>_ s3.
            (Inr ''static'', s3)))))"

definition gopigo3_command_exit :: "robot \<Rightarrow> string result" where
  "gopigo3_command_exit s = (Inr ''exit'', s)"

subsection \<open>The dance\<close>

text \<open>
  The local variables of \<^verbatim>\<open>_gopigo3_command_activatedance\<close>. \<^verbatim>\<open>60/128\<close> is Python 3's true
  division, and every sleep length built from it is a dyadic fraction, exact as a float.
  The two derived speeds \<open>starDriveHypotenuse\<close> and \<^verbatim>\<open>starTurnSpeed135 * (90/135)\<close> are
  floats in the source and are carried here as the rationals the expressions denote; no
  statement below depends on their values.
\<close>

definition beat :: rat where
  "beat = 60 / 128"

definition turn90Deg :: rat where
  "turn90Deg = 310"

definition starDriveDiameter :: rat where
  "starDriveDiameter = 380"

definition starDriveHypotenuse :: rat where
  "starDriveHypotenuse = starDriveDiameter / 2 * (1141 / 1000)"

definition starTurnSpeed135 :: rat where
  "starTurnSpeed135 = 243"

definition walkSpeed :: rat where
  "walkSpeed = 250"

definition figure8speed :: rat where
  "figure8speed = 320"

text \<open>
  \<^verbatim>\<open>while slowCounter > 0:\<close> with its body: set the speed, steer, count down, sleep a beat.
\<close>

function slowCounter_loop :: "int \<Rightarrow> step list" where
  "slowCounter_loop slowCounter =
     (if slowCounter > 0 then
        [Call (Set_speed (of_int (slowCounter * 25))),
         Call (Steer 100 100),
         Sleep beat] @ slowCounter_loop (slowCounter - 1)
      else [])"
  by pat_completeness auto
termination
  by (relation "measure nat") auto

text \<open>
  The body, cut at the source's own \<^verbatim>\<open>"""beat n"""\<close> marks. The triple-quoted blocks that hold
  old code are string expressions and do nothing.
\<close>

definition dance_setup :: "step list" where
  "dance_setup =
   [Call (Set_speed 300),
    Call Close_eyes]"

definition dance_beat_0 :: "step list" where
  "dance_beat_0 =
   [Call (Steer 100 100),
    Sleep (beat * 2),
    Call Stop,
    Sleep (beat * 2),
    Call (Steer 100 100),
    Sleep (beat * 2),
    Call Stop,
    Sleep (beat * 2),
    Call (Set_speed 300),
    Call (Steer 100 (27 / 2)),
    Sleep (beat * 8)]"

definition dance_beat_16 :: "step list" where
  "dance_beat_16 =
   [Call (Set_speed 300),
    Call (Steer 100 100),
    Sleep (beat / 2),
    Call Stop,
    Sleep (beat / 2),
    Call (Steer 100 100),
    Sleep (beat / 2),
    Call Stop,
    Sleep (beat / 2),
    Call (Steer 100 100),
    Sleep (beat / 2),
    Call Stop,
    Sleep (beat / 2),
    Call (Steer 100 100),
    Sleep (beat / 2),
    Call Stop,
    Sleep (beat / 2),
    Call (Steer 100 100),
    Sleep (beat / 2),
    Call Stop,
    Sleep (beat / 2),
    Call (Steer 100 100),
    Sleep (beat / 2),
    Call Stop,
    Sleep (beat / 2),
    Call (Steer 100 100),
    Sleep (beat / 2),
    Call Stop,
    Sleep (beat / 2),
    Call (Steer 100 100),
    Sleep (beat / 2),
    Call Stop,
    Sleep (beat / 2)]"

definition dance_beat_24 :: "step list" where
  "dance_beat_24 =
   [Call (Set_speed starDriveDiameter),
    Call (Steer 100 100),
    Sleep (beat * 2),
    Call (Set_speed starTurnSpeed135),
    Call (Steer (- 100) 100),
    Sleep (beat * 2),
    Call (Set_speed starDriveHypotenuse),
    Call (Steer 100 100),
    Sleep (beat * 2),
    Call (Set_speed (starTurnSpeed135 * (90 / 135))),
    Call (Steer (- 100) 100),
    Sleep (beat * 2),
    Call (Set_speed starDriveHypotenuse),
    Call (Steer 100 100),
    Sleep (beat * 2),
    Call (Set_speed (starTurnSpeed135 * (90 / 135))),
    Call (Steer (- 100) 100),
    Sleep (beat * 2),
    Call (Set_speed starDriveHypotenuse),
    Call (Steer 100 100),
    Sleep (beat * 2),
    Call (Set_speed starTurnSpeed135),
    Call (Steer (- 100) 100),
    Sleep (beat * 2),
    Call (Set_speed starDriveDiameter),
    Call (Steer 100 100),
    Sleep (beat * 2)]"

definition dance_beat_42 :: "step list" where
  "dance_beat_42 =
   [Call (Set_speed turn90Deg),
    Call (Steer 100 (- 100)),
    Sleep beat,
    Call (Set_speed 250)] @
   slowCounter_loop 12"

definition dance_beat_55 :: "step list" where
  "dance_beat_55 =
   [Call (Set_speed turn90Deg),
    Call (Steer 100 (- 100)),
    Sleep beat,
    Call (Set_speed 300),
    Call (Steer 100 100),
    Sleep (beat / 2),
    Call Stop,
    Sleep (beat / 2),
    Call (Steer 100 100),
    Sleep (beat / 2),
    Call Stop,
    Sleep (beat / 2),
    Call (Steer 100 100),
    Sleep (beat / 2),
    Call Stop,
    Sleep (beat / 2),
    Call (Steer 100 100),
    Sleep (beat / 2),
    Call Stop,
    Sleep (beat / 2),
    Call (Steer 100 100),
    Sleep (beat / 2),
    Call Stop,
    Sleep (beat / 2),
    Call (Steer 100 100),
    Sleep (beat / 2),
    Call Stop,
    Sleep (beat / 2),
    Call (Steer 100 100),
    Sleep (beat / 2),
    Call Stop,
    Sleep (beat / 2),
    Call (Steer 100 100),
    Sleep (beat / 2),
    Call Stop,
    Sleep (beat / 2)]"

definition dance_beat_64 :: "step list" where
  "dance_beat_64 =
   [Call (Set_speed turn90Deg),
    Call (Steer 100 (- 100)),
    Sleep beat,
    Call (Set_speed walkSpeed),
    Call Forward,
    Sleep (beat * 2),
    Call (Steer 100 (- 100)),
    Sleep (beat / 2),
    Call (Steer (- 100) 100),
    Sleep (beat / 2),
    Call (Set_speed walkSpeed),
    Call Forward,
    Sleep (beat * 2)]"

definition dance_beat_70 :: "step list" where
  "dance_beat_70 =
   [Call (Steer 100 (- 100)),
    Sleep (beat / 2),
    Call (Steer (- 100) 100),
    Sleep (beat / 2),
    Call (Set_speed turn90Deg),
    Call (Steer (- 100) 100),
    Sleep beat,
    Call (Set_speed walkSpeed),
    Call Forward,
    Sleep (beat * 2),
    Call (Steer 100 (- 100)),
    Sleep (beat / 2),
    Call (Steer (- 100) 100),
    Sleep (beat / 2),
    Call (Set_speed walkSpeed),
    Call Forward,
    Sleep (beat * 2),
    Call (Steer 100 (- 100)),
    Sleep (beat / 2),
    Call (Steer (- 100) 100),
    Sleep (beat / 2)]"

definition dance_beat_78 :: "step list" where
  "dance_beat_78 =
   [Call (Set_speed turn90Deg),
    Call (Steer (- 100) 100),
    Sleep beat,
    Call (Set_speed walkSpeed),
    Call Forward,
    Sleep (beat * 1),
    Call Open_eyes,
    Call (Blinker_on 0),
    Call (Blinker_on 1),
    Call (Set_speed walkSpeed),
    Call Forward,
    Sleep (beat * 1),
    Call (Steer 100 (- 100)),
    Sleep (beat / 2),
    Call (Steer (- 100) 100),
    Sleep (beat / 2),
    Call (Set_speed walkSpeed),
    Call Forward,
    Sleep (beat * 2),
    Call (Steer 100 (- 100)),
    Sleep (beat / 2),
    Call (Steer (- 100) 100),
    Sleep (beat / 2),
    Call (Set_speed turn90Deg),
    Call (Steer 100 (- 100)),
    Sleep beat]"

definition dance_beat_86 :: "step list" where
  "dance_beat_86 =
   [Call (Set_speed walkSpeed),
    Call Forward,
    Sleep (beat * 4),
    Call (Set_speed turn90Deg),
    Call (Steer 100 (- 100)),
    Sleep (beat * 1),
    Call (Set_speed walkSpeed),
    Call Forward,
    Sleep (beat * 3)]"

definition dance_beat_94 :: "step list" where
  "dance_beat_94 =
   [Call (Set_speed figure8speed),
    Call (Steer 100 20),
    Sleep (beat * 4),
    Call (Set_speed figure8speed),
    Call (Steer 20 100),
    Sleep (beat * 4)]"

definition dance_beat_102 :: "step list" where
  "dance_beat_102 =
   [Call (Set_speed turn90Deg),
    Call (Steer (- 100) 100),
    Sleep (beat * 8),
    Call (Set_speed turn90Deg),
    Call (Steer 100 (- 100)),
    Sleep (beat * 2)]"

definition dance_beat_112 :: "step list" where
  "dance_beat_112 =
   [Call (Set_speed figure8speed),
    Call (Steer 20 100),
    Sleep (beat * 4),
    Call (Set_speed figure8speed),
    Call (Steer 100 20),
    Sleep (beat * 4)]"

definition dance_beat_120 :: "step list" where
  "dance_beat_120 =
   [Call (Set_speed turn90Deg),
    Call (Steer (- 100) 100),
    Call (Set_right_eye_color (255, 0, 0)),
    Call (Set_left_eye_color (0, 0, 255)),
    Call Close_eyes,
    Call Open_eyes,
    Sleep beat,
    Call (Set_right_eye_color (0, 255, 0)),
    Call (Set_left_eye_color (255, 0, 0)),
    Call Close_eyes,
    Call Open_eyes,
    Sleep beat,
    Call (Set_right_eye_color (0, 0, 255)),
    Call (Set_left_eye_color (0, 255, 0)),
    Call Close_eyes,
    Call Open_eyes,
    Sleep beat,
    Call (Set_right_eye_color (255, 255, 255)),
    Call (Set_left_eye_color (255, 255, 255)),
    Call Close_eyes,
    Call Open_eyes,
    Sleep beat,
    Call (Set_speed turn90Deg),
    Call (Steer 100 (- 100)),
    Call (Set_right_eye_color (255, 0, 0)),
    Call (Set_left_eye_color (0, 0, 255)),
    Call Close_eyes,
    Call Open_eyes,
    Sleep beat,
    Call (Set_right_eye_color (0, 255, 0)),
    Call (Set_left_eye_color (255, 0, 0)),
    Call Close_eyes,
    Call Open_eyes,
    Sleep beat,
    Call (Set_right_eye_color (0, 0, 255)),
    Call (Set_left_eye_color (0, 255, 0)),
    Call Close_eyes,
    Call Open_eyes,
    Sleep beat,
    Call (Set_right_eye_color (255, 255, 255)),
    Call (Set_left_eye_color (255, 255, 255)),
    Call Close_eyes,
    Call Open_eyes,
    Sleep beat]"

definition dance_finish :: "step list" where
  "dance_finish =
   [Call Close_eyes,
    Call (Blinker_off 0),
    Call (Blinker_off 1),
    Call Stop,
    Call (Set_speed 500)]"

definition activatedance_body :: "step list" where
  "activatedance_body =
     dance_setup @ dance_beat_0 @ dance_beat_16 @ dance_beat_24 @ dance_beat_42 @
     dance_beat_55 @ dance_beat_64 @ dance_beat_70 @ dance_beat_78 @ dance_beat_86 @
     dance_beat_94 @ dance_beat_102 @ dance_beat_112 @ dance_beat_120 @ dance_finish"

definition gopigo3_command_activatedance :: "actuator \<Rightarrow> robot \<Rightarrow> string result" where
  "gopigo3_command_activatedance hw s =
     and_then (exec hw activatedance_body s) (\<lambda>_ s1. (Inr ''static'', s1))"

subsection \<open>The delivery\<close>

definition turn90 :: int where
  "turn90 = 84"

definition deliveraltoids_body :: "step list" where
  "deliveraltoids_body =
   [Call (Set_speed 300),
    Call Init_servo,
    Call (Drive_inches 49),
    Call (Turn_degrees turn90),
    Call (Drive_inches 76),
    Call (Turn_degrees (turn90 - 2)),
    Call (Drive_inches 40),
    Call (Turn_degrees (turn90 * 2)),
    Call (Drive_inches (- 36)),
    Call (Set_speed 100),
    Call (Drive_inches (- 48)),
    Call (Set_speed 300),
    Call (Turn_degrees (- turn90 + 2)),
    Call (Drive_inches 80),
    Call (Turn_degrees (- turn90)),
    Call Stop]"

definition gopigo3_command_deliveraltoids :: "actuator \<Rightarrow> robot \<Rightarrow> string result" where
  "gopigo3_command_deliveraltoids hw s =
     and_then (exec hw deliveraltoids_body s) (\<lambda>_ s1. (Inr ''static'', s1))"

subsection \<open>Dispatch\<close>

text \<open>
  A bound method, as \<^verbatim>\<open>executeKeyboardJob\<close> calls it: it is given the hardware oracle and the
  raw randomness of this key press.
\<close>

type_synonym handler = "actuator \<Rightarrow> nat \<times> nat \<times> nat \<Rightarrow> robot \<Rightarrow> string result"

definition method_prefix :: string where
  "method_prefix = ''_gopigo3_command_''"

text \<open>
  \<^verbatim>\<open>getattr(self, method_name, ...)\<close> on the names \<^verbatim>\<open>executeKeyboardJob\<close> can build: they all
  start with the prefix, and the attributes of the class that do are its eighteen handlers.
  \<open>None\<close> is the case where Python hands back the default.
\<close>

definition getattr :: "string \<Rightarrow> handler option" where
  "getattr method_name =
     map_of
      [(''_gopigo3_command_forward'', \<lambda>hw rnd. gopigo3_command_forward hw),
       (''_gopigo3_command_backward'', \<lambda>hw rnd. gopigo3_command_backward hw),
       (''_gopigo3_command_left'', \<lambda>hw rnd. gopigo3_command_left hw),
       (''_gopigo3_command_right'', \<lambda>hw rnd. gopigo3_command_right hw),
       (''_gopigo3_command_stop'', \<lambda>hw rnd. gopigo3_command_stop hw),
       (''_gopigo3_command_forward10cm'', \<lambda>hw rnd. gopigo3_command_forward10cm hw),
       (''_gopigo3_command_forward10in'', \<lambda>hw rnd. gopigo3_command_forward10in hw),
       (''_gopigo3_command_forwardturn'', \<lambda>hw rnd. gopigo3_command_forwardturn hw),
       (''_gopigo3_command_leftblinker'', \<lambda>hw rnd. gopigo3_command_leftblinker hw),
       (''_gopigo3_command_rightblinker'', \<lambda>hw rnd. gopigo3_command_rightblinker hw),
       (''_gopigo3_command_blinkers'', \<lambda>hw rnd. gopigo3_command_blinkers hw),
       (''_gopigo3_command_lefteye'', \<lambda>hw rnd. gopigo3_command_lefteye hw),
       (''_gopigo3_command_righteye'', \<lambda>hw rnd. gopigo3_command_righteye hw),
       (''_gopigo3_command_eyes'', \<lambda>hw rnd. gopigo3_command_eyes hw),
       (''_gopigo3_command_eyescolor'', gopigo3_command_eyescolor),
       (''_gopigo3_command_exit'', \<lambda>hw rnd. gopigo3_command_exit),
       (''_gopigo3_command_activatedance'', \<lambda>hw rnd. gopigo3_command_activatedance hw),
       (''_gopigo3_command_deliveraltoids'', \<lambda>hw rnd. gopigo3_command_deliveraltoids hw)]
      method_name"

text \<open>
  \<^verbatim>\<open>executeKeyboardJob\<close>. The \<^verbatim>\<open>KeyError\<close> of the lookup is caught and leaves the suffix empty;
  the default of \<^verbatim>\<open>getattr\<close> is the function that returns \<^verbatim>\<open>"nothing"\<close>. The handler itself
  runs outside the \<^verbatim>\<open>try\<close>, so what it raises goes to the caller.
\<close>

definition executeKeyboardJob ::
  "actuator \<Rightarrow> nat \<times> nat \<times> nat \<Rightarrow> string \<Rightarrow> robot \<Rightarrow> string result" where
  "executeKeyboardJob hw rnd argument s =
     (let method_suffix =
            (case keybindings s argument of
               Some b \<Rightarrow> KEY_FUNC_SUFFIX b
             | None \<Rightarrow> []);
          method_name = method_prefix @ method_suffix
      in case getattr method_name of
           Some method \<Rightarrow> method hw rnd s
         | None \<Rightarrow> (Inr ''nothing'', s))"

subsection \<open>The menu\<close>

text \<open>\<^verbatim>\<open>"\r[key {:8}] :  {}".format(key, description)\<close>: the key is padded on the right to eight.\<close>

definition menu_line :: "string \<Rightarrow> string \<Rightarrow> string" where
  "menu_line key description =
     [CHR 0x0D] @ ''[key '' @ key @ replicate (8 - length key) (CHR '' '') @ ''] :  '' @
     description"

definition keys_mismatch_line :: string where
  "keys_mismatch_line =
     ''Error: Keys found GoPiGo3WithKeyboard.order_of_keys don'' @ [CHR 0x27] @
     ''t match with those in GoPiGo3WithKeyboard.keybindings.''"

text \<open>
  The \<^verbatim>\<open>for\<close> loop inside the \<^verbatim>\<open>try\<close>: the first key without a binding raises \<^verbatim>\<open>KeyError\<close> before
  its line is printed, the handler prints the message, and the remaining keys are not reached.
\<close>

fun drawMenu_lines :: "(string \<rightharpoonup> string \<times> string) \<Rightarrow> string list \<Rightarrow> string list" where
  "drawMenu_lines kb [] = []"
| "drawMenu_lines kb (key # keys) =
     (case kb key of
        Some b \<Rightarrow> menu_line key (KEY_DESCRIPTION b) # drawMenu_lines kb keys
      | None \<Rightarrow> [keys_mismatch_line])"

definition drawMenu :: "robot \<Rightarrow> robot" where
  "drawMenu s = s\<lparr>stdout := stdout s @ drawMenu_lines (keybindings s) (order_of_keys s)\<rparr>"

subsection \<open>Reading a trace\<close>

fun calls_of :: "step list \<Rightarrow> cmd list" where
  "calls_of [] = []"
| "calls_of (Call c # xs) = c # calls_of xs"
| "calls_of (Sleep d # xs) = calls_of xs"

fun sleeps_of :: "step list \<Rightarrow> rat list" where
  "sleeps_of [] = []"
| "sleeps_of (Call c # xs) = sleeps_of xs"
| "sleeps_of (Sleep d # xs) = d # sleeps_of xs"

definition sleeps_ok :: "step list \<Rightarrow> bool" where
  "sleeps_ok p = list_all (\<lambda>d. 0 \<le> d) (sleeps_of p)"

text \<open>The four flags of an object, blinkers first.\<close>

definition toggle_flags :: "robot \<Rightarrow> bool \<times> bool \<times> bool \<times> bool" where
  "toggle_flags s = (left_blinker_on s, right_blinker_on s, left_eye_on s, right_eye_on s)"

text \<open>
  The calls that set the wheels turning or bring them to rest. \<open>Set_speed\<close> is not one:
  it stores the speed that later calls use.
\<close>

fun is_motion :: "cmd \<Rightarrow> bool" where
  "is_motion Forward = True"
| "is_motion Backward = True"
| "is_motion Left = True"
| "is_motion Right = True"
| "is_motion Stop = True"
| "is_motion (Drive_cm v) = True"
| "is_motion (Drive_inches v) = True"
| "is_motion (Drive_degrees v) = True"
| "is_motion (Turn_degrees v) = True"
| "is_motion (Steer l r) = True"
| "is_motion c = False"

subsection \<open>A fault injected on one call\<close>

text \<open>
  The hardware that raises on the call made when exactly \<open>k\<close> calls have been attempted
  before it, and on no other.
\<close>

definition fails_on_call :: "nat \<Rightarrow> actuator" where
  "fails_on_call k h c \<longleftrightarrow> length (calls_of h) = k"

text \<open>The statements of a body up to its call number \<open>k\<close> (counted from 0), that call included.\<close>

fun upto_call :: "nat \<Rightarrow> step list \<Rightarrow> step list" where
  "upto_call k [] = []"
| "upto_call k (Sleep d # xs) = Sleep d # upto_call k xs"
| "upto_call 0 (Call c # xs) = [Call c]"
| "upto_call (Suc k) (Call c # xs) = Call c # upto_call k xs"

subsection \<open>The specification's sequencer\<close>

text \<open>
  The specification describes the dance as data played by a sequencer: a choreography is a
  list of segments, a segment is its command(s) and an optional duration, and the sequencer
  issues the commands of each segment in turn and then, if there is a duration, blocks for it.
  \<open>spec_play\<close> is that description; the theorems compare it with the handler of the source.
\<close>

type_synonym segment = "cmd list \<times> rat option"

fun spec_hold :: "rat option \<Rightarrow> robot \<Rightarrow> unit result" where
  "spec_hold None s = (Inr (), s)"
| "spec_hold (Some d) s = sleep d s"

fun spec_play :: "actuator \<Rightarrow> segment list \<Rightarrow> robot \<Rightarrow> unit result" where
  "spec_play hw [] s = (Inr (), s)"
| "spec_play hw ((cs, d) # segs) s =
     and_then (exec hw (map Call cs) s) (\<lambda>_ s1.
     and_then (spec_hold d s1) (\<lambda>_. spec_play hw segs))"

fun segment_steps :: "segment \<Rightarrow> step list" where
  "segment_steps (cs, None) = map Call cs"
| "segment_steps (cs, Some d) = map Call cs @ [Sleep d]"

definition choreography_steps :: "segment list \<Rightarrow> step list" where
  "choreography_steps segs = concat (map segment_steps segs)"

fun duration_of :: "segment \<Rightarrow> rat" where
  "duration_of (cs, None) = 0"
| "duration_of (cs, Some d) = d"

definition durations_ok :: "segment list \<Rightarrow> bool" where
  "durations_ok segs = list_all (\<lambda>seg. 0 \<le> duration_of seg) segs"

text \<open>
  The segments of a handler body: each sleep closes the segment of the calls before it, and
  calls after the last sleep form a segment without duration.
\<close>

fun segments_of :: "step list \<Rightarrow> segment list" where
  "segments_of [] = []"
| "segments_of (Sleep d # xs) = ([], Some d) # segments_of xs"
| "segments_of (Call c # xs) =
     (case segments_of xs of
        [] \<Rightarrow> [([c], None)]
      | (cs, d) # segs \<Rightarrow> (c # cs, d) # segs)"

subsection \<open>The specification's route player\<close>

text \<open>
  A route is a list of legs; a leg is a drive or a turn with a signed value and an optional
  speed override. The player issues, for each leg in turn, the speed if there is one and then
  the drive or turn. \<open>spec_play_route\<close> is that description.
\<close>

datatype waypoint_op = DriveDistanceInches int | TurnDegrees int

type_synonym leg = "rat option \<times> waypoint_op"

fun op_cmd :: "waypoint_op \<Rightarrow> cmd" where
  "op_cmd (DriveDistanceInches v) = Drive_inches v"
| "op_cmd (TurnDegrees v) = Turn_degrees v"

fun spec_speed :: "actuator \<Rightarrow> rat option \<Rightarrow> robot \<Rightarrow> unit result" where
  "spec_speed hw None s = (Inr (), s)"
| "spec_speed hw (Some v) s = call hw (Set_speed v) s"

fun spec_play_route :: "actuator \<Rightarrow> leg list \<Rightarrow> robot \<Rightarrow> unit result" where
  "spec_play_route hw [] s = (Inr (), s)"
| "spec_play_route hw ((speedOverride, op) # legs) s =
     and_then (spec_speed hw speedOverride s) (\<lambda>_ s1.
     and_then (call hw (op_cmd op) s1) (\<lambda>_. spec_play_route hw legs))"

fun leg_calls :: "leg \<Rightarrow> cmd list" where
  "leg_calls (None, op) = [op_cmd op]"
| "leg_calls (Some v, op) = [Set_speed v, op_cmd op]"

definition route_calls :: "leg list \<Rightarrow> cmd list" where
  "route_calls legs = concat (map leg_calls legs)"

text \<open>
  The legs of \<^verbatim>\<open>_gopigo3_command_deliveraltoids\<close>, waypoint 1 to waypoint 6, between its
  opening \<^verbatim>\<open>set_speed(300)\<close>, \<^verbatim>\<open>init_servo()\<close> and its closing \<^verbatim>\<open>stop()\<close>.
\<close>

definition deliveraltoids_route :: "leg list" where
  "deliveraltoids_route =
   [(None, DriveDistanceInches 49),
    (None, TurnDegrees turn90),
    (None, DriveDistanceInches 76),
    (None, TurnDegrees (turn90 - 2)),
    (None, DriveDistanceInches 40),
    (None, TurnDegrees (turn90 * 2)),
    (None, DriveDistanceInches (- 36)),
    (Some 100, DriveDistanceInches (- 48)),
    (Some 300, TurnDegrees (- turn90 + 2)),
    (None, DriveDistanceInches 80),
    (None, TurnDegrees (- turn90))]"


section \<open>Properties\<close>

subsection \<open>Sequencing\<close>

declare slowCounter_loop.simps [simp del]

lemma and_then_Inr [simp]: "and_then (Inr x, s) f = f x s"
  by (simp add: and_then_def)

lemma and_then_Inl [simp]: "and_then (Inl e, s) f = (Inl e, s)"
  by (simp add: and_then_def)

lemma exec_Cons_fun:
  "exec hw (x # xs) = (\<lambda>s. and_then (do_step hw x s) (\<lambda>_. exec hw xs))"
  by (rule ext) simp

lemma exec_append:
  "exec hw (p @ q) s = and_then (exec hw p s) (\<lambda>_. exec hw q)"
proof (induction p arbitrary: s)
  case Nil
  then show ?case by simp
next
  case (Cons x xs)
  then show ?case
    by (cases "do_step hw x s"; cases "fst (do_step hw x s)") (auto simp: and_then_def)
qed

lemma calls_of_append [simp]: "calls_of (p @ q) = calls_of p @ calls_of q"
  by (induction p rule: calls_of.induct) simp_all

lemma sleeps_of_append [simp]: "sleeps_of (p @ q) = sleeps_of p @ sleeps_of q"
  by (induction p rule: sleeps_of.induct) simp_all

lemma calls_of_map_Call [simp]: "calls_of (map Call cs) = cs"
  by (induction cs) simp_all

lemma sleeps_of_map_Call [simp]: "sleeps_of (map Call cs) = []"
  by (induction cs) simp_all

lemma sleeps_ok_append [simp]: "sleeps_ok (p @ q) \<longleftrightarrow> sleeps_ok p \<and> sleeps_ok q"
  by (simp add: sleeps_ok_def)

lemma sleeps_ok_map_Call [simp]: "sleeps_ok (map Call cs)"
  by (simp add: sleeps_ok_def)

subsection \<open>Hardware that never raises\<close>

lemma call_reliable:
  "reliable hw \<Longrightarrow> call hw c s = (Inr (), s\<lparr>trace := trace s @ [Call c]\<rparr>)"
  by (simp add: call_def reliable_def)

lemma exec_reliable:
  "reliable hw \<Longrightarrow> sleeps_ok p \<Longrightarrow> exec hw p s = (Inr (), s\<lparr>trace := trace s @ p\<rparr>)"
proof (induction p arbitrary: s)
  case Nil
  then show ?case by simp
next
  case (Cons x xs)
  then show ?case
    by (cases x) (simp_all add: call_reliable sleep_def sleeps_ok_def)
qed

lemma exec_returns:
  "exec hw p s = (Inr u, s') \<Longrightarrow> s' = s\<lparr>trace := trace s @ p\<rparr>"
proof (induction p arbitrary: s)
  case Nil
  then show ?case by simp
next
  case (Cons x xs)
  show ?case
  proof (cases x)
    case (Call c)
    with Cons.prems have e: "exec hw xs (s\<lparr>trace := trace s @ [Call c]\<rparr>) = (Inr u, s')"
      by (auto simp: call_def split: if_splits)
    from Cons.IH [OF e] show ?thesis using Call by simp
  next
    case (Sleep d)
    with Cons.prems have e: "exec hw xs (s\<lparr>trace := trace s @ [Sleep d]\<rparr>) = (Inr u, s')"
      by (auto simp: sleep_def split: if_splits)
    from Cons.IH [OF e] show ?thesis using Sleep by simp
  qed
qed

subsection \<open>Hardware that raises on one call\<close>

lemma call_fails_on_call:
  "call (fails_on_call n) c s =
     (if length (calls_of (trace s)) = n
      then (Inl ActuatorError, s\<lparr>trace := trace s @ [Call c]\<rparr>)
      else (Inr (), s\<lparr>trace := trace s @ [Call c]\<rparr>))"
  by (simp add: call_def fails_on_call_def)

lemma exec_fails_on_call:
  "sleeps_ok p \<Longrightarrow> k < length (calls_of p) \<Longrightarrow>
   exec (fails_on_call (length (calls_of (trace s)) + k)) p s =
     (Inl ActuatorError, s\<lparr>trace := trace s @ upto_call k p\<rparr>)"
proof (induction k p arbitrary: s rule: upto_call.induct)
  case (1 k)
  then show ?case by simp
next
  case (2 k d xs)
  let ?s1 = "s\<lparr>trace := trace s @ [Sleep d]\<rparr>"
  from 2 have "exec (fails_on_call (length (calls_of (trace ?s1)) + k)) xs ?s1 =
        (Inl ActuatorError, ?s1\<lparr>trace := trace ?s1 @ upto_call k xs\<rparr>)"
    by (intro "2.IH") (simp_all add: sleeps_ok_def)
  with 2 show ?case by (simp add: sleep_def sleeps_ok_def)
next
  case (3 c xs)
  then show ?case by (simp add: call_fails_on_call)
next
  case (4 k c xs)
  let ?s1 = "s\<lparr>trace := trace s @ [Call c]\<rparr>"
  from 4 have "exec (fails_on_call (length (calls_of (trace ?s1)) + k)) xs ?s1 =
        (Inl ActuatorError, ?s1\<lparr>trace := trace ?s1 @ upto_call k xs\<rparr>)"
    by (intro "4.IH") (simp_all add: sleeps_ok_def)
  then show ?case by (simp add: call_fails_on_call)
qed

lemma calls_of_upto_call:
  "k < length (calls_of p) \<Longrightarrow> calls_of (upto_call k p) = take (Suc k) (calls_of p)"
  by (induction k p rule: upto_call.induct) simp_all

subsection \<open>The bodies of the two long routines\<close>

lemma slowCounter_loop_12:
  "slowCounter_loop 12 =
     concat (map (\<lambda>c. [Call (Set_speed (of_int (c * 25))), Call (Steer 100 100), Sleep beat])
       [12, 11, 10, 9, 8, 7, 6, 5, 4, 3, 2, 1])"
  by (simp add: slowCounter_loop.simps)

lemmas dance_defs =
  dance_setup_def dance_beat_0_def dance_beat_16_def dance_beat_24_def dance_beat_42_def
  dance_beat_55_def dance_beat_64_def dance_beat_70_def dance_beat_78_def dance_beat_86_def
  dance_beat_94_def dance_beat_102_def dance_beat_112_def dance_beat_120_def dance_finish_def

lemma sleeps_ok_dance: "sleeps_ok activatedance_body"
  unfolding activatedance_body_def sleeps_ok_append
  by (simp_all add: dance_defs slowCounter_loop_12 sleeps_ok_def beat_def)

lemma n_calls_dance: "length (calls_of activatedance_body) = 185"
  unfolding activatedance_body_def calls_of_append
  by (simp add: dance_defs slowCounter_loop_12)

lemma total_sleep_dance: "sum_list (sleeps_of activatedance_body) = 128 * beat"
  unfolding activatedance_body_def sleeps_of_append sum_list_append
  by (simp add: dance_defs slowCounter_loop_12 beat_def)

lemma sleeps_ok_delivery: "sleeps_ok deliveraltoids_body"
  by (simp add: deliveraltoids_body_def sleeps_ok_def)

lemma deliveraltoids_body_route:
  "deliveraltoids_body =
     [Call (Set_speed 300), Call Init_servo] @
     map Call (route_calls deliveraltoids_route) @ [Call Stop]"
  by (simp add: deliveraltoids_body_def deliveraltoids_route_def route_calls_def)

subsection \<open>The sequencer and the route player against \<open>exec\<close>\<close>

lemma spec_play_exec: "spec_play hw segs s = exec hw (choreography_steps segs) s"
proof (induction segs arbitrary: s)
  case Nil
  then show ?case by (simp add: choreography_steps_def)
next
  case (Cons seg segs)
  obtain cs d where seg: "seg = (cs, d)" by (cases seg)
  have tl: "(\<lambda>_. spec_play hw segs) = (\<lambda>_ :: unit. exec hw (choreography_steps segs))"
    using Cons.IH by (intro ext)
  show ?case
  proof (cases d)
    case None
    then show ?thesis
      using seg tl by (simp add: choreography_steps_def exec_append)
  next
    case (Some t)
    then show ?thesis
      using seg tl by (simp add: choreography_steps_def exec_append exec_Cons_fun)
  qed
qed

lemma segments_of_steps: "choreography_steps (segments_of p) = p"
proof (induction p rule: segments_of.induct)
  case 1
  then show ?case by (simp add: choreography_steps_def)
next
  case (2 d xs)
  then show ?case by (simp add: choreography_steps_def)
next
  case (3 c xs)
  show ?case
  proof (cases "segments_of xs")
    case Nil
    with 3 have "xs = []" by (simp add: choreography_steps_def)
    with Nil show ?thesis by (simp add: choreography_steps_def)
  next
    case (Cons seg segs)
    obtain cs d where seg: "seg = (cs, d)" by (cases seg)
    from 3 Cons seg have "xs = segment_steps (cs, d) @ choreography_steps segs"
      by (simp add: choreography_steps_def)
    with Cons seg show ?thesis
      by (cases d) (simp_all add: choreography_steps_def)
  qed
qed

lemma calls_of_choreography: "calls_of (choreography_steps segs) = concat (map fst segs)"
proof (induction segs)
  case Nil
  then show ?case by (simp add: choreography_steps_def)
next
  case (Cons seg segs)
  obtain cs d where seg: "seg = (cs, d)" by (cases seg)
  with Cons show ?case by (cases d) (simp_all add: choreography_steps_def)
qed

lemma sleeps_of_choreography:
  "sum_list (sleeps_of (choreography_steps segs)) = sum_list (map duration_of segs)"
proof (induction segs)
  case Nil
  then show ?case by (simp add: choreography_steps_def)
next
  case (Cons seg segs)
  obtain cs d where seg: "seg = (cs, d)" by (cases seg)
  with Cons show ?case by (cases d) (simp_all add: choreography_steps_def)
qed

lemma sleeps_ok_choreography: "durations_ok segs \<Longrightarrow> sleeps_ok (choreography_steps segs)"
proof (induction segs)
  case Nil
  then show ?case by (simp add: choreography_steps_def sleeps_ok_def)
next
  case (Cons seg segs)
  obtain cs d where seg: "seg = (cs, d)" by (cases seg)
  with Cons show ?case
    by (cases d) (simp_all add: choreography_steps_def durations_ok_def sleeps_ok_def)
qed

lemma spec_play_route_exec:
  "spec_play_route hw legs s = exec hw (map Call (route_calls legs)) s"
proof (induction legs arbitrary: s)
  case Nil
  then show ?case by (simp add: route_calls_def)
next
  case (Cons l legs)
  obtain ov op where l: "l = (ov, op)" by (cases l)
  have tl: "(\<lambda>_. spec_play_route hw legs) =
            (\<lambda>_ :: unit. exec hw (map Call (route_calls legs)))"
    using Cons.IH by (intro ext)
  show ?case
    using l tl by (cases ov) (simp_all add: route_calls_def exec_Cons_fun)
qed

subsection \<open>What each handler does on hardware that never raises\<close>

lemma motion_handlers_reliable:
  assumes "reliable hw"
  shows "gopigo3_command_forward hw s = (Inr ''moving'', s\<lparr>trace := trace s @ [Call Forward]\<rparr>)"
    and "gopigo3_command_backward hw s = (Inr ''moving'', s\<lparr>trace := trace s @ [Call Backward]\<rparr>)"
    and "gopigo3_command_left hw s = (Inr ''moving'', s\<lparr>trace := trace s @ [Call Left]\<rparr>)"
    and "gopigo3_command_right hw s = (Inr ''moving'', s\<lparr>trace := trace s @ [Call Right]\<rparr>)"
    and "gopigo3_command_stop hw s = (Inr ''moving'', s\<lparr>trace := trace s @ [Call Stop]\<rparr>)"
    and "gopigo3_command_forward10cm hw s =
           (Inr ''path'', s\<lparr>trace := trace s @ [Call (Drive_cm 10)]\<rparr>)"
    and "gopigo3_command_forward10in hw s =
           (Inr ''path'', s\<lparr>trace := trace s @ [Call (Drive_inches 10)]\<rparr>)"
    and "gopigo3_command_forwardturn hw s =
           (Inr ''path'', s\<lparr>trace := trace s @ [Call (Drive_degrees 360)]\<rparr>)"
  using assms
  by (simp_all add: gopigo3_command_forward_def gopigo3_command_backward_def
      gopigo3_command_left_def gopigo3_command_right_def gopigo3_command_stop_def
      gopigo3_command_forward10cm_def gopigo3_command_forward10in_def
      gopigo3_command_forwardturn_def call_reliable)

lemma leftblinker_reliable:
  "reliable hw \<Longrightarrow> gopigo3_command_leftblinker hw s =
     (Inr ''static'',
      s\<lparr>left_blinker_on := \<not> left_blinker_on s,
        trace := trace s @ [Call (if left_blinker_on s then Led_off 1 else Led_on 1)]\<rparr>)"
  by (simp add: gopigo3_command_leftblinker_def call_reliable)

lemma rightblinker_reliable:
  "reliable hw \<Longrightarrow> gopigo3_command_rightblinker hw s =
     (Inr ''static'',
      s\<lparr>right_blinker_on := \<not> right_blinker_on s,
        trace := trace s @ [Call (if right_blinker_on s then Led_off 0 else Led_on 0)]\<rparr>)"
  by (simp add: gopigo3_command_rightblinker_def call_reliable)

lemma lefteye_reliable:
  "reliable hw \<Longrightarrow> gopigo3_command_lefteye hw s =
     (Inr ''static'',
      s\<lparr>left_eye_on := \<not> left_eye_on s,
        trace := trace s @ [Call (if left_eye_on s then Close_left_eye else Open_left_eye)]\<rparr>)"
  by (simp add: gopigo3_command_lefteye_def call_reliable)

lemma righteye_reliable:
  "reliable hw \<Longrightarrow> gopigo3_command_righteye hw s =
     (Inr ''static'',
      s\<lparr>right_eye_on := \<not> right_eye_on s,
        trace := trace s @ [Call (if right_eye_on s then Close_right_eye else Open_right_eye)]\<rparr>)"
  by (simp add: gopigo3_command_righteye_def call_reliable)

lemma blinkers_reliable:
  "reliable hw \<Longrightarrow> gopigo3_command_blinkers hw s =
     (if \<not> left_blinker_on s \<and> \<not> right_blinker_on s then
        (Inr ''static'',
         s\<lparr>left_blinker_on := True, right_blinker_on := True,
           trace := trace s @ [Call (Led_on 0), Call (Led_on 1)]\<rparr>)
      else
        (Inr ''static'',
         s\<lparr>left_blinker_on := False, right_blinker_on := False,
           trace := trace s @ [Call (Led_off 0), Call (Led_off 1)]\<rparr>))"
  by (simp add: gopigo3_command_blinkers_def call_reliable)

lemma eyes_reliable:
  "reliable hw \<Longrightarrow> gopigo3_command_eyes hw s =
     (if \<not> left_eye_on s \<and> \<not> right_eye_on s then
        (Inr ''static'',
         s\<lparr>left_eye_on := True, right_eye_on := True, trace := trace s @ [Call Open_eyes]\<rparr>)
      else
        (Inr ''static'',
         s\<lparr>left_eye_on := False, right_eye_on := False, trace := trace s @ [Call Close_eyes]\<rparr>))"
  by (simp add: gopigo3_command_eyes_def call_reliable)

lemma eyescolor_reliable:
  "reliable hw \<Longrightarrow> gopigo3_command_eyescolor hw (w1, w2, w3) s =
     (Inr ''static'',
      s\<lparr>trace := trace s @
          [Call (Set_eye_color (randint 0 255 w1, randint 0 255 w2, randint 0 255 w3))] @
          (if left_eye_on s then [Call Open_left_eye] else []) @
          (if right_eye_on s then [Call Open_right_eye] else [])\<rparr>)"
  by (simp add: gopigo3_command_eyescolor_def call_reliable)

lemma activatedance_reliable:
  "reliable hw \<Longrightarrow> gopigo3_command_activatedance hw s =
     (Inr ''static'', s\<lparr>trace := trace s @ activatedance_body\<rparr>)"
  by (simp add: gopigo3_command_activatedance_def exec_reliable sleeps_ok_dance)

lemma deliveraltoids_reliable:
  "reliable hw \<Longrightarrow> gopigo3_command_deliveraltoids hw s =
     (Inr ''static'', s\<lparr>trace := trace s @ deliveraltoids_body\<rparr>)"
  by (simp add: gopigo3_command_deliveraltoids_def exec_reliable sleeps_ok_delivery)

subsection \<open>Dispatch of the registered keys\<close>

lemma suffix_of_registered:
  "map_option KEY_FUNC_SUFFIX (keybindings init ''w'') = Some ''forward''"
  "map_option KEY_FUNC_SUFFIX (keybindings init ''s'') = Some ''backward''"
  "map_option KEY_FUNC_SUFFIX (keybindings init ''a'') = Some ''left''"
  "map_option KEY_FUNC_SUFFIX (keybindings init ''d'') = Some ''right''"
  "map_option KEY_FUNC_SUFFIX (keybindings init ''<SPACE>'') = Some ''stop''"
  "map_option KEY_FUNC_SUFFIX (keybindings init ''<F1>'') = Some ''forward10cm''"
  "map_option KEY_FUNC_SUFFIX (keybindings init ''<F2>'') = Some ''forward10in''"
  "map_option KEY_FUNC_SUFFIX (keybindings init ''<F3>'') = Some ''forwardturn''"
  "map_option KEY_FUNC_SUFFIX (keybindings init ''1'') = Some ''leftblinker''"
  "map_option KEY_FUNC_SUFFIX (keybindings init ''2'') = Some ''rightblinker''"
  "map_option KEY_FUNC_SUFFIX (keybindings init ''3'') = Some ''blinkers''"
  "map_option KEY_FUNC_SUFFIX (keybindings init ''5'') = Some ''activatedance''"
  "map_option KEY_FUNC_SUFFIX (keybindings init ''7'') = Some ''deliveraltoids''"
  "map_option KEY_FUNC_SUFFIX (keybindings init ''8'') = Some ''lefteye''"
  "map_option KEY_FUNC_SUFFIX (keybindings init ''9'') = Some ''righteye''"
  "map_option KEY_FUNC_SUFFIX (keybindings init ''0'') = Some ''eyes''"
  "map_option KEY_FUNC_SUFFIX (keybindings init ''e'') = Some ''eyescolor''"
  "map_option KEY_FUNC_SUFFIX (keybindings init ''<ESC>'') = Some ''exit''"
  by (simp_all add: init_def keybindings_literal_def KEY_FUNC_SUFFIX_def)

lemma getattr_handlers:
  "getattr (method_prefix @ ''forward'') = Some (\<lambda>hw rnd. gopigo3_command_forward hw)"
  "getattr (method_prefix @ ''backward'') = Some (\<lambda>hw rnd. gopigo3_command_backward hw)"
  "getattr (method_prefix @ ''left'') = Some (\<lambda>hw rnd. gopigo3_command_left hw)"
  "getattr (method_prefix @ ''right'') = Some (\<lambda>hw rnd. gopigo3_command_right hw)"
  "getattr (method_prefix @ ''stop'') = Some (\<lambda>hw rnd. gopigo3_command_stop hw)"
  "getattr (method_prefix @ ''forward10cm'') = Some (\<lambda>hw rnd. gopigo3_command_forward10cm hw)"
  "getattr (method_prefix @ ''forward10in'') = Some (\<lambda>hw rnd. gopigo3_command_forward10in hw)"
  "getattr (method_prefix @ ''forwardturn'') = Some (\<lambda>hw rnd. gopigo3_command_forwardturn hw)"
  "getattr (method_prefix @ ''leftblinker'') = Some (\<lambda>hw rnd. gopigo3_command_leftblinker hw)"
  "getattr (method_prefix @ ''rightblinker'') = Some (\<lambda>hw rnd. gopigo3_command_rightblinker hw)"
  "getattr (method_prefix @ ''blinkers'') = Some (\<lambda>hw rnd. gopigo3_command_blinkers hw)"
  "getattr (method_prefix @ ''lefteye'') = Some (\<lambda>hw rnd. gopigo3_command_lefteye hw)"
  "getattr (method_prefix @ ''righteye'') = Some (\<lambda>hw rnd. gopigo3_command_righteye hw)"
  "getattr (method_prefix @ ''eyes'') = Some (\<lambda>hw rnd. gopigo3_command_eyes hw)"
  "getattr (method_prefix @ ''eyescolor'') = Some gopigo3_command_eyescolor"
  "getattr (method_prefix @ ''exit'') = Some (\<lambda>hw rnd. gopigo3_command_exit)"
  "getattr (method_prefix @ ''activatedance'') = Some (\<lambda>hw rnd. gopigo3_command_activatedance hw)"
  "getattr (method_prefix @ ''deliveraltoids'') = Some (\<lambda>hw rnd. gopigo3_command_deliveraltoids hw)"
  by (simp_all add: getattr_def method_prefix_def)

lemma executeKeyboardJob_suffix:
  "map_option KEY_FUNC_SUFFIX (keybindings s argument) = Some suffix \<Longrightarrow>
   getattr (method_prefix @ suffix) = Some method \<Longrightarrow>
   executeKeyboardJob hw rnd argument s = method hw rnd s"
  by (cases "keybindings s argument") (simp_all add: executeKeyboardJob_def)

lemma dom_keybindings_init:
  "dom (keybindings init) =
     {''w'', ''s'', ''a'', ''d'', ''<SPACE>'', ''<F1>'', ''<F2>'', ''<F3>'',
      ''1'', ''2'', ''3'', ''5'', ''7'', ''8'', ''9'', ''0'', ''e'', ''<ESC>''}"
  by (simp add: init_def keybindings_literal_def dom_map_of_conv_image_fst)

lemma dispatch_each_key:
  assumes "reliable hw" and "keybindings s = keybindings init"
  shows "\<exists>s'. executeKeyboardJob hw (w1, w2, w3) ''w'' s = (Inr ''moving'', s')"
    and "\<exists>s'. executeKeyboardJob hw (w1, w2, w3) ''s'' s = (Inr ''moving'', s')"
    and "\<exists>s'. executeKeyboardJob hw (w1, w2, w3) ''a'' s = (Inr ''moving'', s')"
    and "\<exists>s'. executeKeyboardJob hw (w1, w2, w3) ''d'' s = (Inr ''moving'', s')"
    and "\<exists>s'. executeKeyboardJob hw (w1, w2, w3) ''<SPACE>'' s = (Inr ''moving'', s')"
    and "\<exists>s'. executeKeyboardJob hw (w1, w2, w3) ''<F1>'' s = (Inr ''path'', s')"
    and "\<exists>s'. executeKeyboardJob hw (w1, w2, w3) ''<F2>'' s = (Inr ''path'', s')"
    and "\<exists>s'. executeKeyboardJob hw (w1, w2, w3) ''<F3>'' s = (Inr ''path'', s')"
    and "\<exists>s'. executeKeyboardJob hw (w1, w2, w3) ''1'' s = (Inr ''static'', s')"
    and "\<exists>s'. executeKeyboardJob hw (w1, w2, w3) ''2'' s = (Inr ''static'', s')"
    and "\<exists>s'. executeKeyboardJob hw (w1, w2, w3) ''3'' s = (Inr ''static'', s')"
    and "\<exists>s'. executeKeyboardJob hw (w1, w2, w3) ''5'' s = (Inr ''static'', s')"
    and "\<exists>s'. executeKeyboardJob hw (w1, w2, w3) ''7'' s = (Inr ''static'', s')"
    and "\<exists>s'. executeKeyboardJob hw (w1, w2, w3) ''8'' s = (Inr ''static'', s')"
    and "\<exists>s'. executeKeyboardJob hw (w1, w2, w3) ''9'' s = (Inr ''static'', s')"
    and "\<exists>s'. executeKeyboardJob hw (w1, w2, w3) ''0'' s = (Inr ''static'', s')"
    and "\<exists>s'. executeKeyboardJob hw (w1, w2, w3) ''e'' s = (Inr ''static'', s')"
    and "\<exists>s'. executeKeyboardJob hw (w1, w2, w3) ''<ESC>'' s = (Inr ''exit'', s')"
proof -
  note run = executeKeyboardJob_suffix [where s = s, unfolded assms(2)]
  show "\<exists>s'. executeKeyboardJob hw (w1, w2, w3) ''w'' s = (Inr ''moving'', s')"
    using run [OF suffix_of_registered(1) getattr_handlers(1)] assms(1)
    by (simp add: motion_handlers_reliable)
  show "\<exists>s'. executeKeyboardJob hw (w1, w2, w3) ''s'' s = (Inr ''moving'', s')"
    using run [OF suffix_of_registered(2) getattr_handlers(2)] assms(1)
    by (simp add: motion_handlers_reliable)
  show "\<exists>s'. executeKeyboardJob hw (w1, w2, w3) ''a'' s = (Inr ''moving'', s')"
    using run [OF suffix_of_registered(3) getattr_handlers(3)] assms(1)
    by (simp add: motion_handlers_reliable)
  show "\<exists>s'. executeKeyboardJob hw (w1, w2, w3) ''d'' s = (Inr ''moving'', s')"
    using run [OF suffix_of_registered(4) getattr_handlers(4)] assms(1)
    by (simp add: motion_handlers_reliable)
  show "\<exists>s'. executeKeyboardJob hw (w1, w2, w3) ''<SPACE>'' s = (Inr ''moving'', s')"
    using run [OF suffix_of_registered(5) getattr_handlers(5)] assms(1)
    by (simp add: motion_handlers_reliable)
  show "\<exists>s'. executeKeyboardJob hw (w1, w2, w3) ''<F1>'' s = (Inr ''path'', s')"
    using run [OF suffix_of_registered(6) getattr_handlers(6)] assms(1)
    by (simp add: motion_handlers_reliable)
  show "\<exists>s'. executeKeyboardJob hw (w1, w2, w3) ''<F2>'' s = (Inr ''path'', s')"
    using run [OF suffix_of_registered(7) getattr_handlers(7)] assms(1)
    by (simp add: motion_handlers_reliable)
  show "\<exists>s'. executeKeyboardJob hw (w1, w2, w3) ''<F3>'' s = (Inr ''path'', s')"
    using run [OF suffix_of_registered(8) getattr_handlers(8)] assms(1)
    by (simp add: motion_handlers_reliable)
  show "\<exists>s'. executeKeyboardJob hw (w1, w2, w3) ''1'' s = (Inr ''static'', s')"
    using run [OF suffix_of_registered(9) getattr_handlers(9)] assms(1)
    by (simp add: leftblinker_reliable)
  show "\<exists>s'. executeKeyboardJob hw (w1, w2, w3) ''2'' s = (Inr ''static'', s')"
    using run [OF suffix_of_registered(10) getattr_handlers(10)] assms(1)
    by (simp add: rightblinker_reliable)
  show "\<exists>s'. executeKeyboardJob hw (w1, w2, w3) ''3'' s = (Inr ''static'', s')"
    using run [OF suffix_of_registered(11) getattr_handlers(11)] assms(1)
    by (simp add: blinkers_reliable)
  show "\<exists>s'. executeKeyboardJob hw (w1, w2, w3) ''5'' s = (Inr ''static'', s')"
    using run [OF suffix_of_registered(12) getattr_handlers(17)] assms(1)
    by (simp add: activatedance_reliable)
  show "\<exists>s'. executeKeyboardJob hw (w1, w2, w3) ''7'' s = (Inr ''static'', s')"
    using run [OF suffix_of_registered(13) getattr_handlers(18)] assms(1)
    by (simp add: deliveraltoids_reliable)
  show "\<exists>s'. executeKeyboardJob hw (w1, w2, w3) ''8'' s = (Inr ''static'', s')"
    using run [OF suffix_of_registered(14) getattr_handlers(12)] assms(1)
    by (simp add: lefteye_reliable)
  show "\<exists>s'. executeKeyboardJob hw (w1, w2, w3) ''9'' s = (Inr ''static'', s')"
    using run [OF suffix_of_registered(15) getattr_handlers(13)] assms(1)
    by (simp add: righteye_reliable)
  show "\<exists>s'. executeKeyboardJob hw (w1, w2, w3) ''0'' s = (Inr ''static'', s')"
    using run [OF suffix_of_registered(16) getattr_handlers(14)] assms(1)
    by (simp add: eyes_reliable)
  show "\<exists>s'. executeKeyboardJob hw (w1, w2, w3) ''e'' s = (Inr ''static'', s')"
    using run [OF suffix_of_registered(17) getattr_handlers(15)] assms(1)
    by (simp add: eyescolor_reliable)
  show "\<exists>s'. executeKeyboardJob hw (w1, w2, w3) ''<ESC>'' s = (Inr ''exit'', s')"
    using run [OF suffix_of_registered(18) getattr_handlers(16)] assms(1)
    by (simp add: gopigo3_command_exit_def)
qed

lemma dispatch_registered:
  assumes "reliable hw" and "keybindings s = keybindings init"
    and "key \<in> dom (keybindings init)"
  shows "\<exists>s'. executeKeyboardJob hw rnd key s =
           (Inr (if key \<in> {''w'', ''s'', ''a'', ''d'', ''<SPACE>''} then ''moving''
                 else if key \<in> {''<F1>'', ''<F2>'', ''<F3>''} then ''path''
                 else if key = ''<ESC>'' then ''exit''
                 else ''static''), s')"
proof -
  obtain w1 w2 w3 where rnd: "rnd = (w1, w2, w3)" by (cases rnd)
  from assms(3) have
    "key = ''w'' \<or> key = ''s'' \<or> key = ''a'' \<or> key = ''d'' \<or> key = ''<SPACE>'' \<or>
     key = ''<F1>'' \<or> key = ''<F2>'' \<or> key = ''<F3>'' \<or>
     key = ''1'' \<or> key = ''2'' \<or> key = ''3'' \<or> key = ''5'' \<or> key = ''7'' \<or>
     key = ''8'' \<or> key = ''9'' \<or> key = ''0'' \<or> key = ''e'' \<or> key = ''<ESC>''"
    by (simp only: dom_keybindings_init insert_iff empty_iff simp_thms)
  then show ?thesis
    using dispatch_each_key [OF assms(1,2), of w1 w2 w3]
    by (elim disjE) (simp_all add: rnd)
qed

lemma and_then_returns:
  "and_then m f = (Inr c, s') \<Longrightarrow> \<exists>x s1. m = (Inr x, s1) \<and> f x s1 = (Inr c, s')"
  by (auto simp: and_then_def split: prod.splits sum.splits)

lemma returns_class:
  "gopigo3_command_forward hw s = (Inr c, s') \<Longrightarrow> c = ''moving''"
  "gopigo3_command_backward hw s = (Inr c, s') \<Longrightarrow> c = ''moving''"
  "gopigo3_command_left hw s = (Inr c, s') \<Longrightarrow> c = ''moving''"
  "gopigo3_command_right hw s = (Inr c, s') \<Longrightarrow> c = ''moving''"
  "gopigo3_command_stop hw s = (Inr c, s') \<Longrightarrow> c = ''moving''"
  "gopigo3_command_forward10cm hw s = (Inr c, s') \<Longrightarrow> c = ''path''"
  "gopigo3_command_forward10in hw s = (Inr c, s') \<Longrightarrow> c = ''path''"
  "gopigo3_command_forwardturn hw s = (Inr c, s') \<Longrightarrow> c = ''path''"
  "gopigo3_command_leftblinker hw s = (Inr c, s') \<Longrightarrow> c = ''static''"
  "gopigo3_command_rightblinker hw s = (Inr c, s') \<Longrightarrow> c = ''static''"
  "gopigo3_command_blinkers hw s = (Inr c, s') \<Longrightarrow> c = ''static''"
  "gopigo3_command_lefteye hw s = (Inr c, s') \<Longrightarrow> c = ''static''"
  "gopigo3_command_righteye hw s = (Inr c, s') \<Longrightarrow> c = ''static''"
  "gopigo3_command_eyes hw s = (Inr c, s') \<Longrightarrow> c = ''static''"
  "gopigo3_command_eyescolor hw rnd s = (Inr c, s') \<Longrightarrow> c = ''static''"
  "gopigo3_command_exit s = (Inr c, s') \<Longrightarrow> c = ''exit''"
  "gopigo3_command_activatedance hw s = (Inr c, s') \<Longrightarrow> c = ''static''"
  "gopigo3_command_deliveraltoids hw s = (Inr c, s') \<Longrightarrow> c = ''static''"
  by (auto simp: gopigo3_command_forward_def gopigo3_command_backward_def
      gopigo3_command_left_def gopigo3_command_right_def gopigo3_command_stop_def
      gopigo3_command_forward10cm_def gopigo3_command_forward10in_def
      gopigo3_command_forwardturn_def gopigo3_command_leftblinker_def
      gopigo3_command_rightblinker_def gopigo3_command_blinkers_def
      gopigo3_command_lefteye_def gopigo3_command_righteye_def gopigo3_command_eyes_def
      gopigo3_command_eyescolor_def gopigo3_command_exit_def
      gopigo3_command_activatedance_def gopigo3_command_deliveraltoids_def
      Let_def dest!: and_then_returns split: if_splits prod.splits)

lemma dispatch_each_key_class:
  assumes "keybindings s = keybindings init"
  shows "executeKeyboardJob hw rnd ''w'' s = (Inr c, s') \<Longrightarrow> c = ''moving''"
    and "executeKeyboardJob hw rnd ''s'' s = (Inr c, s') \<Longrightarrow> c = ''moving''"
    and "executeKeyboardJob hw rnd ''a'' s = (Inr c, s') \<Longrightarrow> c = ''moving''"
    and "executeKeyboardJob hw rnd ''d'' s = (Inr c, s') \<Longrightarrow> c = ''moving''"
    and "executeKeyboardJob hw rnd ''<SPACE>'' s = (Inr c, s') \<Longrightarrow> c = ''moving''"
    and "executeKeyboardJob hw rnd ''<F1>'' s = (Inr c, s') \<Longrightarrow> c = ''path''"
    and "executeKeyboardJob hw rnd ''<F2>'' s = (Inr c, s') \<Longrightarrow> c = ''path''"
    and "executeKeyboardJob hw rnd ''<F3>'' s = (Inr c, s') \<Longrightarrow> c = ''path''"
    and "executeKeyboardJob hw rnd ''1'' s = (Inr c, s') \<Longrightarrow> c = ''static''"
    and "executeKeyboardJob hw rnd ''2'' s = (Inr c, s') \<Longrightarrow> c = ''static''"
    and "executeKeyboardJob hw rnd ''3'' s = (Inr c, s') \<Longrightarrow> c = ''static''"
    and "executeKeyboardJob hw rnd ''5'' s = (Inr c, s') \<Longrightarrow> c = ''static''"
    and "executeKeyboardJob hw rnd ''7'' s = (Inr c, s') \<Longrightarrow> c = ''static''"
    and "executeKeyboardJob hw rnd ''8'' s = (Inr c, s') \<Longrightarrow> c = ''static''"
    and "executeKeyboardJob hw rnd ''9'' s = (Inr c, s') \<Longrightarrow> c = ''static''"
    and "executeKeyboardJob hw rnd ''0'' s = (Inr c, s') \<Longrightarrow> c = ''static''"
    and "executeKeyboardJob hw rnd ''e'' s = (Inr c, s') \<Longrightarrow> c = ''static''"
    and "executeKeyboardJob hw rnd ''<ESC>'' s = (Inr c, s') \<Longrightarrow> c = ''exit''"
proof -
  note run = executeKeyboardJob_suffix [where s = s, unfolded assms]
  show "executeKeyboardJob hw rnd ''w'' s = (Inr c, s') \<Longrightarrow> c = ''moving''"
    unfolding run [OF suffix_of_registered(1) getattr_handlers(1)]
    by (rule returns_class(1))
  show "executeKeyboardJob hw rnd ''s'' s = (Inr c, s') \<Longrightarrow> c = ''moving''"
    unfolding run [OF suffix_of_registered(2) getattr_handlers(2)]
    by (rule returns_class(2))
  show "executeKeyboardJob hw rnd ''a'' s = (Inr c, s') \<Longrightarrow> c = ''moving''"
    unfolding run [OF suffix_of_registered(3) getattr_handlers(3)]
    by (rule returns_class(3))
  show "executeKeyboardJob hw rnd ''d'' s = (Inr c, s') \<Longrightarrow> c = ''moving''"
    unfolding run [OF suffix_of_registered(4) getattr_handlers(4)]
    by (rule returns_class(4))
  show "executeKeyboardJob hw rnd ''<SPACE>'' s = (Inr c, s') \<Longrightarrow> c = ''moving''"
    unfolding run [OF suffix_of_registered(5) getattr_handlers(5)]
    by (rule returns_class(5))
  show "executeKeyboardJob hw rnd ''<F1>'' s = (Inr c, s') \<Longrightarrow> c = ''path''"
    unfolding run [OF suffix_of_registered(6) getattr_handlers(6)]
    by (rule returns_class(6))
  show "executeKeyboardJob hw rnd ''<F2>'' s = (Inr c, s') \<Longrightarrow> c = ''path''"
    unfolding run [OF suffix_of_registered(7) getattr_handlers(7)]
    by (rule returns_class(7))
  show "executeKeyboardJob hw rnd ''<F3>'' s = (Inr c, s') \<Longrightarrow> c = ''path''"
    unfolding run [OF suffix_of_registered(8) getattr_handlers(8)]
    by (rule returns_class(8))
  show "executeKeyboardJob hw rnd ''1'' s = (Inr c, s') \<Longrightarrow> c = ''static''"
    unfolding run [OF suffix_of_registered(9) getattr_handlers(9)]
    by (rule returns_class(9))
  show "executeKeyboardJob hw rnd ''2'' s = (Inr c, s') \<Longrightarrow> c = ''static''"
    unfolding run [OF suffix_of_registered(10) getattr_handlers(10)]
    by (rule returns_class(10))
  show "executeKeyboardJob hw rnd ''3'' s = (Inr c, s') \<Longrightarrow> c = ''static''"
    unfolding run [OF suffix_of_registered(11) getattr_handlers(11)]
    by (rule returns_class(11))
  show "executeKeyboardJob hw rnd ''5'' s = (Inr c, s') \<Longrightarrow> c = ''static''"
    unfolding run [OF suffix_of_registered(12) getattr_handlers(17)]
    by (rule returns_class(17))
  show "executeKeyboardJob hw rnd ''7'' s = (Inr c, s') \<Longrightarrow> c = ''static''"
    unfolding run [OF suffix_of_registered(13) getattr_handlers(18)]
    by (rule returns_class(18))
  show "executeKeyboardJob hw rnd ''8'' s = (Inr c, s') \<Longrightarrow> c = ''static''"
    unfolding run [OF suffix_of_registered(14) getattr_handlers(12)]
    by (rule returns_class(12))
  show "executeKeyboardJob hw rnd ''9'' s = (Inr c, s') \<Longrightarrow> c = ''static''"
    unfolding run [OF suffix_of_registered(15) getattr_handlers(13)]
    by (rule returns_class(13))
  show "executeKeyboardJob hw rnd ''0'' s = (Inr c, s') \<Longrightarrow> c = ''static''"
    unfolding run [OF suffix_of_registered(16) getattr_handlers(14)]
    by (rule returns_class(14))
  show "executeKeyboardJob hw rnd ''e'' s = (Inr c, s') \<Longrightarrow> c = ''static''"
    unfolding run [OF suffix_of_registered(17) getattr_handlers(15)]
    by (rule returns_class(15))
  show "executeKeyboardJob hw rnd ''<ESC>'' s = (Inr c, s') \<Longrightarrow> c = ''exit''"
    unfolding run [OF suffix_of_registered(18) getattr_handlers(16)]
    by (rule returns_class(16))
qed

lemma dispatch_class:
  assumes "keybindings s = keybindings init" and "key \<in> dom (keybindings init)"
    and "executeKeyboardJob hw rnd key s = (Inr c, s')"
  shows "c = (if key \<in> {''w'', ''s'', ''a'', ''d'', ''<SPACE>''} then ''moving''
              else if key \<in> {''<F1>'', ''<F2>'', ''<F3>''} then ''path''
              else if key = ''<ESC>'' then ''exit''
              else ''static'')"
proof -
  from assms(2) have
    "key = ''w'' \<or> key = ''s'' \<or> key = ''a'' \<or> key = ''d'' \<or> key = ''<SPACE>'' \<or>
     key = ''<F1>'' \<or> key = ''<F2>'' \<or> key = ''<F3>'' \<or>
     key = ''1'' \<or> key = ''2'' \<or> key = ''3'' \<or> key = ''5'' \<or> key = ''7'' \<or>
     key = ''8'' \<or> key = ''9'' \<or> key = ''0'' \<or> key = ''e'' \<or> key = ''<ESC>''"
    by (simp only: dom_keybindings_init insert_iff empty_iff simp_thms)
  then show ?thesis
  proof (elim disjE)
    assume k: "key = ''w''"
    from assms(3) [unfolded k] have "c = ''moving''"
      by (rule dispatch_each_key_class(1) [OF assms(1)])
    with k show ?thesis by simp
  next
    assume k: "key = ''s''"
    from assms(3) [unfolded k] have "c = ''moving''"
      by (rule dispatch_each_key_class(2) [OF assms(1)])
    with k show ?thesis by simp
  next
    assume k: "key = ''a''"
    from assms(3) [unfolded k] have "c = ''moving''"
      by (rule dispatch_each_key_class(3) [OF assms(1)])
    with k show ?thesis by simp
  next
    assume k: "key = ''d''"
    from assms(3) [unfolded k] have "c = ''moving''"
      by (rule dispatch_each_key_class(4) [OF assms(1)])
    with k show ?thesis by simp
  next
    assume k: "key = ''<SPACE>''"
    from assms(3) [unfolded k] have "c = ''moving''"
      by (rule dispatch_each_key_class(5) [OF assms(1)])
    with k show ?thesis by simp
  next
    assume k: "key = ''<F1>''"
    from assms(3) [unfolded k] have "c = ''path''"
      by (rule dispatch_each_key_class(6) [OF assms(1)])
    with k show ?thesis by simp
  next
    assume k: "key = ''<F2>''"
    from assms(3) [unfolded k] have "c = ''path''"
      by (rule dispatch_each_key_class(7) [OF assms(1)])
    with k show ?thesis by simp
  next
    assume k: "key = ''<F3>''"
    from assms(3) [unfolded k] have "c = ''path''"
      by (rule dispatch_each_key_class(8) [OF assms(1)])
    with k show ?thesis by simp
  next
    assume k: "key = ''1''"
    from assms(3) [unfolded k] have "c = ''static''"
      by (rule dispatch_each_key_class(9) [OF assms(1)])
    with k show ?thesis by simp
  next
    assume k: "key = ''2''"
    from assms(3) [unfolded k] have "c = ''static''"
      by (rule dispatch_each_key_class(10) [OF assms(1)])
    with k show ?thesis by simp
  next
    assume k: "key = ''3''"
    from assms(3) [unfolded k] have "c = ''static''"
      by (rule dispatch_each_key_class(11) [OF assms(1)])
    with k show ?thesis by simp
  next
    assume k: "key = ''5''"
    from assms(3) [unfolded k] have "c = ''static''"
      by (rule dispatch_each_key_class(12) [OF assms(1)])
    with k show ?thesis by simp
  next
    assume k: "key = ''7''"
    from assms(3) [unfolded k] have "c = ''static''"
      by (rule dispatch_each_key_class(13) [OF assms(1)])
    with k show ?thesis by simp
  next
    assume k: "key = ''8''"
    from assms(3) [unfolded k] have "c = ''static''"
      by (rule dispatch_each_key_class(14) [OF assms(1)])
    with k show ?thesis by simp
  next
    assume k: "key = ''9''"
    from assms(3) [unfolded k] have "c = ''static''"
      by (rule dispatch_each_key_class(15) [OF assms(1)])
    with k show ?thesis by simp
  next
    assume k: "key = ''0''"
    from assms(3) [unfolded k] have "c = ''static''"
      by (rule dispatch_each_key_class(16) [OF assms(1)])
    with k show ?thesis by simp
  next
    assume k: "key = ''e''"
    from assms(3) [unfolded k] have "c = ''static''"
      by (rule dispatch_each_key_class(17) [OF assms(1)])
    with k show ?thesis by simp
  next
    assume k: "key = ''<ESC>''"
    from assms(3) [unfolded k] have "c = ''exit''"
      by (rule dispatch_each_key_class(18) [OF assms(1)])
    with k show ?thesis by simp
  qed
qed

lemma getattr_nothing: "getattr method_prefix = None"
  by (simp add: getattr_def method_prefix_def)

subsection \<open>The menu\<close>

lemma menu_line_not_mismatch: "keys_mismatch_line \<noteq> menu_line key description"
  by (simp add: menu_line_def keys_mismatch_line_def)

lemma mismatch_line_iff:
  "keys_mismatch_line \<in> set (drawMenu_lines kb order) \<longleftrightarrow> (\<exists>k \<in> set order. kb k = None)"
proof (induction order)
  case Nil
  then show ?case by simp
next
  case (Cons key keys)
  then show ?case
    using menu_line_not_mismatch [of key] by (cases "kb key") auto
qed

lemma tl_order_registered:
  "\<forall>k \<in> set (tl (order_of_keys init)). keybindings init k \<noteq> None"
  by (simp add: init_def keybindings_literal_def)

lemma w_not_displayed: "''w'' \<notin> set (tl (order_of_keys init))"
  by (simp add: init_def)

lemma length_tl_order: "length (tl (order_of_keys init)) = 17"
  by (simp add: init_def)

lemma drawMenu_lines_length:
  "\<forall>k \<in> set order. kb k \<noteq> None \<Longrightarrow> length (drawMenu_lines kb order) = length order"
  by (induction order) auto

lemma q_unbound: "keybindings init ''q'' = None"
  by (simp add: init_def keybindings_literal_def)

section \<open>The claims\<close>

subsection \<open>Dispatch\<close>

text \<open>
  Claim C1. A key that has no binding, and a key whose binding names a suffix for which the
  class has no \<^verbatim>\<open>_gopigo3_command_\<close> method, both make \<open>executeKeyboardJob\<close> return
  \<^verbatim>\<open>"nothing"\<close>. Nothing is raised, nothing is asked of the hardware and the object is left
  as it was, whatever the hardware would have done.
\<close>

theorem executeKeyboardJob_unknown_is_nothing:
  assumes "keybindings s argument = None \<or>
           (\<exists>b. keybindings s argument = Some b \<and>
                getattr (method_prefix @ KEY_FUNC_SUFFIX b) = None)"
  shows "executeKeyboardJob hw rnd argument s = (Inr ''nothing'', s)"
  using assms
  by (auto simp: executeKeyboardJob_def getattr_nothing)

theorem executeKeyboardJob_unknown_is_nothing_witness:
  "executeKeyboardJob (\<lambda>h c. True) (0, 0, 0) ''x'' init = (Inr ''nothing'', init) \<and>
   executeKeyboardJob (\<lambda>h c. True) (0, 0, 0) ''w''
       (init\<lparr>keybindings := (keybindings init)(''w'' \<mapsto> (''Fly away'', ''fly''))\<rparr>) =
     (Inr ''nothing'',
      init\<lparr>keybindings := (keybindings init)(''w'' \<mapsto> (''Fly away'', ''fly''))\<rparr>)"
proof -
  let ?s = "init\<lparr>keybindings := (keybindings init)(''w'' \<mapsto> (''Fly away'', ''fly''))\<rparr>"
  have absent: "keybindings init ''x'' = None"
    by (simp add: init_def keybindings_literal_def)
  have unresolved: "\<exists>b. keybindings ?s ''w'' = Some b \<and>
                        getattr (method_prefix @ KEY_FUNC_SUFFIX b) = None"
    by (simp add: KEY_FUNC_SUFFIX_def getattr_def method_prefix_def)
  show ?thesis
    using executeKeyboardJob_unknown_is_nothing [of init "''x''", OF disjI1 [OF absent]]
      executeKeyboardJob_unknown_is_nothing [of ?s "''w''", OF disjI2 [OF unresolved]]
    by simp
qed

text \<open>
  Claim C8. Each of the eighteen keys of the registry resolves to a handler, and on hardware
  that does not raise \<open>executeKeyboardJob\<close> returns for it one of \<^verbatim>\<open>"moving"\<close>, \<^verbatim>\<open>"path"\<close>,
  \<^verbatim>\<open>"static"\<close> and \<^verbatim>\<open>"exit"\<close>, never \<^verbatim>\<open>"nothing"\<close>: \<^verbatim>\<open>"moving"\<close> for the five drive keys,
  \<^verbatim>\<open>"path"\<close> for the three function keys, \<^verbatim>\<open>"exit"\<close> for escape and \<^verbatim>\<open>"static"\<close> for the rest.
  On hardware that may raise, whatever is returned is still one of the four.
\<close>

theorem registered_keys_classified:
  assumes "reliable hw" and "keybindings s = keybindings init"
    and "key \<in> dom (keybindings init)"
  shows "card (dom (keybindings init)) = 18 \<and>
         (\<exists>c s'. executeKeyboardJob hw rnd key s = (Inr c, s') \<and>
            c \<in> {''moving'', ''path'', ''static'', ''exit''} \<and> c \<noteq> ''nothing'' \<and>
            c = (if key \<in> {''w'', ''s'', ''a'', ''d'', ''<SPACE>''} then ''moving''
                 else if key \<in> {''<F1>'', ''<F2>'', ''<F3>''} then ''path''
                 else if key = ''<ESC>'' then ''exit''
                 else ''static'')) \<and>
         (\<forall>c s'. executeKeyboardJob any_hw rnd key s = (Inr c, s') \<longrightarrow>
            c \<in> {''moving'', ''path'', ''static'', ''exit''} \<and> c \<noteq> ''nothing'')"
proof -
  have "card (dom (keybindings init)) = 18"
    by (simp add: dom_keybindings_init)
  moreover
  from dispatch_registered [OF assms, of rnd] obtain s' where
    "executeKeyboardJob hw rnd key s =
       (Inr (if key \<in> {''w'', ''s'', ''a'', ''d'', ''<SPACE>''} then ''moving''
             else if key \<in> {''<F1>'', ''<F2>'', ''<F3>''} then ''path''
             else if key = ''<ESC>'' then ''exit''
             else ''static''), s')" ..
  moreover
  have "c \<in> {''moving'', ''path'', ''static'', ''exit''} \<and> c \<noteq> ''nothing''"
    if "executeKeyboardJob any_hw rnd key s = (Inr c, s')" for c s'
    using dispatch_class [OF assms(2,3) that] by simp
  ultimately show ?thesis by simp
qed

theorem registered_keys_classified_witness:
  "\<exists>s'. executeKeyboardJob (\<lambda>h c. False) (0, 0, 0) ''7'' init = (Inr ''static'', s')"
proof -
  have r: "reliable (\<lambda>h c. False)"
    by (simp add: reliable_def)
  have k: "''7'' \<in> dom (keybindings init)"
    by (simp add: dom_keybindings_init)
  show ?thesis
    using registered_keys_classified [OF r refl k, of "(0, 0, 0)"] by simp
qed




subsection \<open>Toggles\<close>

text \<open>
  Claim C2. On hardware that does not raise, the handler for both blinkers and the handler
  for both eyes look at the two flags only: if both are false, both outputs are switched on
  and both flags set; in every other state, the mixed ones included, both outputs are
  switched off and both flags cleared.
\<close>

theorem combined_toggles:
  assumes "reliable hw"
  shows "gopigo3_command_blinkers hw s =
           (if \<not> left_blinker_on s \<and> \<not> right_blinker_on s then
              (Inr ''static'',
               s\<lparr>left_blinker_on := True, right_blinker_on := True,
                 trace := trace s @ [Call (Led_on 0), Call (Led_on 1)]\<rparr>)
            else
              (Inr ''static'',
               s\<lparr>left_blinker_on := False, right_blinker_on := False,
                 trace := trace s @ [Call (Led_off 0), Call (Led_off 1)]\<rparr>)) \<and>
         gopigo3_command_eyes hw s =
           (if \<not> left_eye_on s \<and> \<not> right_eye_on s then
              (Inr ''static'',
               s\<lparr>left_eye_on := True, right_eye_on := True,
                 trace := trace s @ [Call Open_eyes]\<rparr>)
            else
              (Inr ''static'',
               s\<lparr>left_eye_on := False, right_eye_on := False,
                 trace := trace s @ [Call Close_eyes]\<rparr>))"
  using assms blinkers_reliable [of hw s] eyes_reliable [of hw s] by simp

theorem combined_toggles_witness:
  "gopigo3_command_blinkers (\<lambda>h c. False) (init\<lparr>left_blinker_on := True\<rparr>) =
     (Inr ''static'',
      init\<lparr>left_blinker_on := False, right_blinker_on := False,
           trace := [Call (Led_off 0), Call (Led_off 1)]\<rparr>) \<and>
   gopigo3_command_eyes (\<lambda>h c. False) init =
     (Inr ''static'',
      init\<lparr>left_eye_on := True, right_eye_on := True, trace := [Call Open_eyes]\<rparr>)"
proof -
  have r: "reliable (\<lambda>h c. False)"
    by (simp add: reliable_def)
  show ?thesis
    using combined_toggles [OF r, of "init\<lparr>left_blinker_on := True\<rparr>"]
      combined_toggles [OF r, of init]
    by (simp add: init_def)
qed

text \<open>
  Claim C7. On hardware that does not raise, each of the four single toggles (left blinker,
  right blinker, left eye, right eye) returns \<^verbatim>\<open>"static"\<close>, flips its own flag and leaves the
  other three alone; so one press changes the flags, and a second press of the same key
  brings all four back to where they were.
\<close>

theorem single_toggles_alternate:
  assumes "reliable hw"
  shows
    "(let r1 = gopigo3_command_leftblinker hw s; r2 = gopigo3_command_leftblinker hw (snd r1)
      in fst r1 = Inr ''static'' \<and> fst r2 = Inr ''static'' \<and>
         toggle_flags (snd r1) =
           (\<not> left_blinker_on s, right_blinker_on s, left_eye_on s, right_eye_on s) \<and>
         toggle_flags (snd r1) \<noteq> toggle_flags s \<and>
         toggle_flags (snd r2) = toggle_flags s) \<and>
     (let r1 = gopigo3_command_rightblinker hw s; r2 = gopigo3_command_rightblinker hw (snd r1)
      in fst r1 = Inr ''static'' \<and> fst r2 = Inr ''static'' \<and>
         toggle_flags (snd r1) =
           (left_blinker_on s, \<not> right_blinker_on s, left_eye_on s, right_eye_on s) \<and>
         toggle_flags (snd r1) \<noteq> toggle_flags s \<and>
         toggle_flags (snd r2) = toggle_flags s) \<and>
     (let r1 = gopigo3_command_lefteye hw s; r2 = gopigo3_command_lefteye hw (snd r1)
      in fst r1 = Inr ''static'' \<and> fst r2 = Inr ''static'' \<and>
         toggle_flags (snd r1) =
           (left_blinker_on s, right_blinker_on s, \<not> left_eye_on s, right_eye_on s) \<and>
         toggle_flags (snd r1) \<noteq> toggle_flags s \<and>
         toggle_flags (snd r2) = toggle_flags s) \<and>
     (let r1 = gopigo3_command_righteye hw s; r2 = gopigo3_command_righteye hw (snd r1)
      in fst r1 = Inr ''static'' \<and> fst r2 = Inr ''static'' \<and>
         toggle_flags (snd r1) =
           (left_blinker_on s, right_blinker_on s, left_eye_on s, \<not> right_eye_on s) \<and>
         toggle_flags (snd r1) \<noteq> toggle_flags s \<and>
         toggle_flags (snd r2) = toggle_flags s)"
  using assms
  by (simp add: Let_def toggle_flags_def leftblinker_reliable rightblinker_reliable
      lefteye_reliable righteye_reliable)

theorem single_toggles_alternate_witness:
  "toggle_flags (snd (gopigo3_command_leftblinker (\<lambda>h c. False) init)) =
     (True, False, False, False) \<and>
   toggle_flags (snd (gopigo3_command_leftblinker (\<lambda>h c. False)
       (snd (gopigo3_command_leftblinker (\<lambda>h c. False) init)))) =
     (False, False, False, False)"
proof -
  have r: "reliable (\<lambda>h c. False)"
    by (simp add: reliable_def)
  have f: "toggle_flags init = (False, False, False, False)"
    by (simp add: toggle_flags_def init_def)
  have g: "\<not> left_blinker_on init" "\<not> right_blinker_on init"
    "\<not> left_eye_on init" "\<not> right_eye_on init"
    by (simp_all add: init_def)
  show ?thesis
    using single_toggles_alternate [OF r, of init]
    by (simp add: Let_def f g)
qed

text \<open>
  Claim C6. The eye-colour handler never changes any of the four flags, on any hardware and
  whether or not it raises. On hardware that does not raise it returns \<^verbatim>\<open>"static"\<close> after
  setting a colour whose three components lie in 0..255, then opening the left eye if its
  flag is set and the right eye if its flag is set, and nothing else: no open command goes
  to an eye whose flag is false. (That the three draws are uniform and independent is a
  matter of \<^verbatim>\<open>random.randint\<close>, which is taken here by its range alone.)
\<close>

theorem eyescolor_keeps_flags:
  assumes "reliable hw"
  shows "toggle_flags (snd (gopigo3_command_eyescolor any_hw (w1, w2, w3) s)) = toggle_flags s \<and>
         gopigo3_command_eyescolor hw (w1, w2, w3) s =
           (Inr ''static'',
            s\<lparr>trace := trace s @
                [Call (Set_eye_color (randint 0 255 w1, randint 0 255 w2, randint 0 255 w3))] @
                (if left_eye_on s then [Call Open_left_eye] else []) @
                (if right_eye_on s then [Call Open_right_eye] else [])\<rparr>) \<and>
         randint 0 255 w1 \<in> {0..255} \<and> randint 0 255 w2 \<in> {0..255} \<and>
         randint 0 255 w3 \<in> {0..255}"
proof -
  have "toggle_flags (snd (gopigo3_command_eyescolor any_hw (w1, w2, w3) s)) = toggle_flags s"
    by (simp add: gopigo3_command_eyescolor_def call_def toggle_flags_def Let_def)
  moreover
  have "randint 0 255 w \<in> {0..255}" for w
    by (simp add: randint_def)
  ultimately show ?thesis
    using assms by (simp add: eyescolor_reliable)
qed

theorem eyescolor_keeps_flags_witness:
  "gopigo3_command_eyescolor (\<lambda>h c. False) (300, 0, 255) (init\<lparr>left_eye_on := True\<rparr>) =
     (Inr ''static'',
      init\<lparr>left_eye_on := True,
           trace := [Call (Set_eye_color (44, 0, 255)), Call Open_left_eye]\<rparr>)"
proof -
  have r: "reliable (\<lambda>h c. False)"
    by (simp add: reliable_def)
  show ?thesis
    using eyescolor_keeps_flags [OF r, of "\<lambda>h c. False" 300 0 255 "init\<lparr>left_eye_on := True\<rparr>"]
    by (simp add: init_def randint_def)
qed

subsection \<open>The dance\<close>



text \<open>
  Claim C3. Nothing in the dance handler or in \<open>executeKeyboardJob\<close> catches what a hardware
  call raises. If call number \<open>k + 1\<close> of the dance raises (\<open>k\<close> calls having succeeded), the
  handler stops there: the trace grows by the statements up to that call and no further,
  exactly \<open>k + 1\<close> calls have been attempted, the first \<open>k + 1\<close> of the authored sequence, and
  the error reaches the caller of the handler and the caller of \<open>executeKeyboardJob\<close>.
\<close>

theorem activatedance_fails_fast:
  assumes "k < length (calls_of activatedance_body)"
  shows "gopigo3_command_activatedance (fails_on_call (length (calls_of (trace s)) + k)) s =
           (Inl ActuatorError, s\<lparr>trace := trace s @ upto_call k activatedance_body\<rparr>) \<and>
         calls_of (upto_call k activatedance_body) = take (Suc k) (calls_of activatedance_body) \<and>
         length (calls_of (upto_call k activatedance_body)) = Suc k \<and>
         (map_option KEY_FUNC_SUFFIX (keybindings s key) = Some ''activatedance'' \<longrightarrow>
            executeKeyboardJob (fails_on_call (length (calls_of (trace s)) + k)) rnd key s =
              (Inl ActuatorError, s\<lparr>trace := trace s @ upto_call k activatedance_body\<rparr>))"
proof -
  let ?hw = "fails_on_call (length (calls_of (trace s)) + k)"
  have run: "gopigo3_command_activatedance ?hw s =
               (Inl ActuatorError, s\<lparr>trace := trace s @ upto_call k activatedance_body\<rparr>)"
    using assms
    by (simp add: gopigo3_command_activatedance_def exec_fails_on_call sleeps_ok_dance)
  have calls: "calls_of (upto_call k activatedance_body) =
                 take (Suc k) (calls_of activatedance_body)"
    using assms by (rule calls_of_upto_call)
  have count: "length (calls_of (upto_call k activatedance_body)) = Suc k"
    using assms by (simp add: calls)
  have "executeKeyboardJob ?hw rnd key s = gopigo3_command_activatedance ?hw s"
    if "map_option KEY_FUNC_SUFFIX (keybindings s key) = Some ''activatedance''"
    using that by (rule executeKeyboardJob_suffix) (rule getattr_handlers(17))
  with run calls count show ?thesis by simp
qed

theorem activatedance_fails_fast_witness:
  "gopigo3_command_activatedance (fails_on_call 1) init =
     (Inl ActuatorError, init\<lparr>trace := [Call (Set_speed 300), Call Close_eyes]\<rparr>) \<and>
   executeKeyboardJob (fails_on_call 1) (0, 0, 0) ''5'' init =
     (Inl ActuatorError, init\<lparr>trace := [Call (Set_speed 300), Call Close_eyes]\<rparr>)"
proof -
  have k: "1 < length (calls_of activatedance_body)"
    by (simp add: n_calls_dance)
  have t: "trace init = []"
    by (simp add: init_def)
  have u: "upto_call (Suc 0) activatedance_body = [Call (Set_speed 300), Call Close_eyes]"
    by (simp add: activatedance_body_def dance_setup_def)
  show ?thesis
    using activatedance_fails_fast [OF k, of init "''5''" "(0, 0, 0)"]
    by (simp add: t u suffix_of_registered)
qed

subsection \<open>The delivery\<close>

text \<open>
  Claim C4. The delivery handler is, on any hardware, its opening \<^verbatim>\<open>set_speed(300)\<close> and
  \<^verbatim>\<open>init_servo()\<close>, then the specification's route player run on its eleven legs, then
  \<^verbatim>\<open>stop()\<close>. On hardware that does not raise, the player issues for every route the calls of
  its legs in the authored order with their signed values, a leg with a speed override
  giving the \<^verbatim>\<open>set_speed\<close> call right before its drive or turn (and a leg without one giving the
  drive or turn alone), and nothing else; the handler's trace is the sixteen calls of the
  source in source order, the first three path calls being 49 in, 84 deg and 76 in.
\<close>

theorem route_player_in_order:
  assumes "reliable hw"
  shows "spec_play_route hw legs s =
           (Inr (), s\<lparr>trace := trace s @ map Call (route_calls legs)\<rparr>) \<and>
         route_calls ((None, op) # legs) = op_cmd op # route_calls legs \<and>
         route_calls ((Some v, op) # legs) = Set_speed v # op_cmd op # route_calls legs \<and>
         gopigo3_command_deliveraltoids any_hw s =
           and_then (exec any_hw [Call (Set_speed 300), Call Init_servo] s) (\<lambda>_ s1.
           and_then (spec_play_route any_hw deliveraltoids_route s1) (\<lambda>_ s2.
           and_then (call any_hw Stop s2) (\<lambda>_ s3. (Inr ''static'', s3)))) \<and>
         gopigo3_command_deliveraltoids hw s =
           (Inr ''static'',
            s\<lparr>trace := trace s @
              map Call
               [Set_speed 300, Init_servo,
                Drive_inches 49, Turn_degrees 84,
                Drive_inches 76, Turn_degrees 82,
                Drive_inches 40, Turn_degrees 168, Drive_inches (- 36),
                Set_speed 100, Drive_inches (- 48), Set_speed 300, Turn_degrees (- 82),
                Drive_inches 80, Turn_degrees (- 84),
                Stop]\<rparr>)"
proof -
  have "spec_play_route hw legs s =
          (Inr (), s\<lparr>trace := trace s @ map Call (route_calls legs)\<rparr>)"
    using assms by (simp add: spec_play_route_exec exec_reliable)
  moreover
  have "exec any_hw deliveraltoids_body s =
          and_then (exec any_hw [Call (Set_speed 300), Call Init_servo] s) (\<lambda>_ s1.
          and_then (spec_play_route any_hw deliveraltoids_route s1) (\<lambda>_.
            exec any_hw [Call Stop]))"
    unfolding deliveraltoids_body_route exec_append
    by (simp only: spec_play_route_exec [abs_def])
  then have "gopigo3_command_deliveraltoids any_hw s =
          and_then (exec any_hw [Call (Set_speed 300), Call Init_servo] s) (\<lambda>_ s1.
          and_then (spec_play_route any_hw deliveraltoids_route s1) (\<lambda>_ s2.
          and_then (call any_hw Stop s2) (\<lambda>_ s3. (Inr ''static'', s3))))"
    by (simp add: gopigo3_command_deliveraltoids_def and_then_def exec_Cons_fun
        split: prod.splits sum.splits)
  moreover
  have "gopigo3_command_deliveraltoids hw s =
          (Inr ''static'', s\<lparr>trace := trace s @ deliveraltoids_body\<rparr>)"
    using assms by (rule deliveraltoids_reliable)
  ultimately show ?thesis
    by (simp add: route_calls_def deliveraltoids_body_def turn90_def)
qed

theorem route_player_in_order_witness:
  "spec_play_route (\<lambda>h c. False)
     [(None, DriveDistanceInches 49), (None, TurnDegrees 84), (None, DriveDistanceInches 76)]
     init =
     (Inr (),
      init\<lparr>trace := [Call (Drive_inches 49), Call (Turn_degrees 84), Call (Drive_inches 76)]\<rparr>) \<and>
   spec_play_route (\<lambda>h c. False) [(Some 100, DriveDistanceInches (- 48))] init =
     (Inr (), init\<lparr>trace := [Call (Set_speed 100), Call (Drive_inches (- 48))]\<rparr>)"
proof -
  have r: "reliable (\<lambda>h c. False)"
    by (simp add: reliable_def)
  have t: "trace init = []"
    by (simp add: init_def)
  show ?thesis
    using route_player_in_order [OF r, of
        "[(None, DriveDistanceInches 49), (None, TurnDegrees 84), (None, DriveDistanceInches 76)]"
        init]
      route_player_in_order [OF r, of "[(Some 100, DriveDistanceInches (- 48))]" init]
    by (simp add: route_calls_def t)
qed

subsection \<open>How the two long routines end\<close>

text \<open>
  Claim C10. When the dance or the delivery returns, on whatever hardware, it returns
  \<^verbatim>\<open>"static"\<close>, it has run its whole body, and the last call of the body that moves or rests
  the wheels is \<^verbatim>\<open>stop()\<close>: in the delivery it is the last call of all, in the dance only
  \<^verbatim>\<open>set_speed(500)\<close> comes after it. On hardware that does not raise both do return.
\<close>

theorem long_routines_end_stopped:
  assumes "(handler, body) = (gopigo3_command_activatedance, activatedance_body) \<or>
           (handler, body) = (gopigo3_command_deliveraltoids, deliveraltoids_body)"
    and "handler hw s = (Inr r, s')"
  shows "r = ''static'' \<and> s' = s\<lparr>trace := trace s @ body\<rparr> \<and>
         filter is_motion (calls_of body) \<noteq> [] \<and>
         last (filter is_motion (calls_of body)) = Stop \<and>
         (\<exists>front. body = front @ [Call Stop] \<or> body = front @ [Call Stop, Call (Set_speed 500)])"
proof -
  from assms have ex: "exec hw body s = (Inr (), s')" and r: "r = ''static''"
    by (auto simp: gopigo3_command_activatedance_def gopigo3_command_deliveraltoids_def
        and_then_def split: prod.splits sum.splits)
  have s': "s' = s\<lparr>trace := trace s @ body\<rparr>"
    using ex by (rule exec_returns)
  have dance: "filter is_motion (calls_of activatedance_body) \<noteq> [] \<and>
               last (filter is_motion (calls_of activatedance_body)) = Stop \<and>
               (\<exists>front. activatedance_body = front @ [Call Stop, Call (Set_speed 500)])"
    by (simp add: activatedance_body_def dance_finish_def)
  have delivery: "filter is_motion (calls_of deliveraltoids_body) \<noteq> [] \<and>
               last (filter is_motion (calls_of deliveraltoids_body)) = Stop \<and>
               (\<exists>front. deliveraltoids_body = front @ [Call Stop])"
    by (simp add: deliveraltoids_body_def)
  from assms(1) dance delivery r s' show ?thesis
    by (elim disjE) (simp_all, blast+)
qed

theorem long_routines_end_stopped_witness:
  "gopigo3_command_deliveraltoids (\<lambda>h c. False) init =
     (Inr ''static'', init\<lparr>trace := deliveraltoids_body\<rparr>) \<and>
   last (filter is_motion (calls_of deliveraltoids_body)) = Stop \<and>
   gopigo3_command_activatedance (\<lambda>h c. False) init =
     (Inr ''static'', init\<lparr>trace := activatedance_body\<rparr>) \<and>
   last (filter is_motion (calls_of activatedance_body)) = Stop"
proof -
  have r: "reliable (\<lambda>h c. False)"
    by (simp add: reliable_def)
  have t: "trace init = []"
    by (simp add: init_def)
  have d: "gopigo3_command_deliveraltoids (\<lambda>h c. False) init =
             (Inr ''static'', init\<lparr>trace := deliveraltoids_body\<rparr>)"
    using deliveraltoids_reliable [OF r, of init] by (simp add: t)
  have a: "gopigo3_command_activatedance (\<lambda>h c. False) init =
             (Inr ''static'', init\<lparr>trace := activatedance_body\<rparr>)"
    using activatedance_reliable [OF r, of init] by (simp add: t)
  show ?thesis
    using long_routines_end_stopped [OF disjI2 [OF refl] d]
      long_routines_end_stopped [OF disjI1 [OF refl] a] d a
    by simp
qed

end
